theory Spec2Isabelle
  imports Main "HOL-Library.Word"
begin

unbundle bit_operations_syntax

text \<open>
  The Cosmos chain context of the Wormhole Connect SDK
  (\<open>sdk/src/contexts/cosmos/context.ts\<close>): the class \<open>CosmosContext\<close>, its two
  static tables, and the library functions its methods call. A method that can
  throw returns a sum, with the error on the left; a method that uses the network
  takes the state of the context and returns the new one.
\<close>

section \<open>Values of the program\<close>

text \<open>
  A \<open>Uint8Array\<close> or \<open>Buffer\<close> is a list of bytes. A string is a list of 8-bit
  characters; the strings the functions below take apart (hex strings, bech32
  addresses) are ASCII, so an index counts the same characters as in the source.
  A \<open>ChainName | ChainId\<close> is a name or a number.
\<close>

type_synonym bytes = "8 word list"

datatype chain = ChainName string | ChainId nat

text \<open>
  Every \<open>throw\<close> of \<open>context.ts\<close> is a constructor. \<open>LibraryError\<close> is an exception
  raised inside a library function (bech32, ethers, the Wormhole SDK), with its
  message; \<open>NetworkError\<close> is a rejected promise of the network client or
  of a guardian.
\<close>

datatype error =
    MethodNotImplemented
  | NotImplementedError
  | PrefixNotFound chain
  | TokenBridgeContractNotFound
  | TokenNotRegistered
  | NativeDenomNotFound chain
  | NoTokenBridgeFound string
  | TxNotFound
  | SequenceNotFound
  | EmitterNotFound
  | RpcNotConfigured
  | LibraryError string
  | NetworkError string

section \<open>The static tables of context.ts\<close>

definition NATIVE_DENOMS :: "string \<rightharpoonup> string" where
  "NATIVE_DENOMS = [''osmosis'' \<mapsto> ''uosmo'', ''wormchain'' \<mapsto> ''uworm'']"

definition PREFIXES :: "string \<rightharpoonup> string" where
  "PREFIXES = [''osmosis'' \<mapsto> ''osmo'', ''wormchain'' \<mapsto> ''wormchain'']"

text \<open>
  \<open>PREFIXES[this.chain]\<close>: the key is a chain name or a chain id. The table has no
  numeric key, so a chain id finds nothing.
\<close>

fun PREFIXES_at :: "chain \<Rightarrow> string option" where
  "PREFIXES_at (ChainName n) = PREFIXES n"
| "PREFIXES_at (ChainId i) = None"

section \<open>Library functions the context calls\<close>

subsection \<open>ethers: hex strings and padding\<close>

definition hex_value :: "char \<Rightarrow> nat option" where
  "hex_value c =
     (let n = of_char c :: nat in
      if 48 \<le> n \<and> n \<le> 57 then Some (n - 48)
      else if 97 \<le> n \<and> n \<le> 102 then Some (n - 87)
      else if 65 \<le> n \<and> n \<le> 70 then Some (n - 55)
      else None)"

definition startsWith :: "string \<Rightarrow> string \<Rightarrow> bool" where
  "startsWith s p = (take (length p) s = p)"

text \<open>\<open>isHexString(value)\<close> without a length: \<open>0x\<close> and then hex digits only.\<close>

definition isHexString :: "string \<Rightarrow> bool" where
  "isHexString s = (startsWith s ''0x'' \<and> (\<forall>c \<in> set (drop 2 s). hex_value c \<noteq> None))"

text \<open>
  \<open>hexStripZeros\<close>: rejects what is not a hex string, then drops every leading
  \<open>0\<close> character after the \<open>0x\<close>, whether or not an even number of them.
\<close>

definition hexStripZeros :: "string \<Rightarrow> error + string" where
  "hexStripZeros s =
     (if \<not> isHexString s then Inl (LibraryError ''invalid hex string'')
      else Inr (''0x'' @ dropWhile (\<lambda>c. c = CHR ''0'') (drop 2 s)))"

text \<open>
  \<open>Buffer.from(s, 'hex')\<close>: one byte for each pair of hex digits, stopping at the
  first pair that is not one; a single trailing digit is dropped.
\<close>

fun buffer_from_hex :: "string \<Rightarrow> bytes" where
  "buffer_from_hex (a # b # rest) =
     (case (hex_value a, hex_value b) of
        (Some h, Some l) \<Rightarrow> of_nat (16 * h + l) # buffer_from_hex rest
      | _ \<Rightarrow> [])"
| "buffer_from_hex _ = []"

text \<open>\<open>zeroPad(value, length)\<close>: pads on the left, throws when the value is longer.\<close>

definition zeroPad :: "bytes \<Rightarrow> nat \<Rightarrow> error + bytes" where
  "zeroPad v n =
     (if length v > n then Inl (LibraryError ''value out of range'')
      else Inr (replicate (n - length v) 0 @ v))"

definition arrayify :: "bytes \<Rightarrow> bytes" where
  "arrayify v = v"

subsection \<open>bech32\<close>

definition ALPHABET :: string where
  "ALPHABET = ''qpzry9x8gf2tvdw0s3jn54khce6mua7l''"

fun index_in :: "char \<Rightarrow> string \<Rightarrow> nat option" where
  "index_in c [] = None"
| "index_in c (x # xs) = (if c = x then Some 0 else map_option Suc (index_in c xs))"

definition ALPHABET_MAP :: "char \<Rightarrow> nat option" where
  "ALPHABET_MAP c = index_in c ALPHABET"

text \<open>\<open>ALPHABET.charAt(x)\<close> for a 5-bit \<open>x\<close>.\<close>

definition charAt_ALPHABET :: "nat \<Rightarrow> char" where
  "charAt_ALPHABET x = ALPHABET ! x"

text \<open>
  \<open>polymodStep\<close> works on JavaScript's 32-bit integers: \<open>-(bit) & g\<close> is \<open>g\<close> when
  the bit is set and 0 otherwise.
\<close>

definition polymodStep :: "32 word \<Rightarrow> 32 word" where
  "polymodStep pre =
     (let b = signed_drop_bit 25 pre in
      push_bit 5 (pre AND 0x1FFFFFF)
        XOR (- (signed_drop_bit 0 b AND 1) AND 0x3b6a57b2)
        XOR (- (signed_drop_bit 1 b AND 1) AND 0x26508e6d)
        XOR (- (signed_drop_bit 2 b AND 1) AND 0x1ea119fa)
        XOR (- (signed_drop_bit 3 b AND 1) AND 0x3d4233dd)
        XOR (- (signed_drop_bit 4 b AND 1) AND 0x2a1462b3))"

text \<open>
  \<open>prefixChk\<close>: the checksum state after the prefix, or the message of the error
  it returns for a character outside 33..126.
\<close>

fun prefixChk_high :: "32 word \<Rightarrow> string \<Rightarrow> string + 32 word" where
  "prefixChk_high chk [] = Inr chk"
| "prefixChk_high chk (c # cs) =
     (let n = of_char c :: nat in
      if n < 33 \<or> n > 126 then Inl ''Invalid prefix''
      else prefixChk_high (polymodStep chk XOR of_nat (n div 32)) cs)"

fun prefixChk_low :: "32 word \<Rightarrow> string \<Rightarrow> 32 word" where
  "prefixChk_low chk [] = chk"
| "prefixChk_low chk (c # cs) =
     prefixChk_low (polymodStep chk XOR (of_nat (of_char c) AND 0x1f)) cs"

definition prefixChk :: "string \<Rightarrow> string + 32 word" where
  "prefixChk prefix =
     (case prefixChk_high 1 prefix of
        Inl e \<Rightarrow> Inl e
      | Inr chk \<Rightarrow> Inr (prefixChk_low (polymodStep chk) prefix))"

definition toLowerCase :: "string \<Rightarrow> string" where
  "toLowerCase s =
     map (\<lambda>c. let n = of_char c :: nat in if 65 \<le> n \<and> n \<le> 90 then char_of (n + 32) else c) s"

definition toUpperCase :: "string \<Rightarrow> string" where
  "toUpperCase s =
     map (\<lambda>c. let n = of_char c :: nat in if 97 \<le> n \<and> n \<le> 122 then char_of (n - 32) else c) s"

text \<open>The first loop of \<open>encode\<close>: the data part and the checksum state after it.\<close>

fun encode_words :: "32 word \<Rightarrow> string \<Rightarrow> nat list \<Rightarrow> string + (32 word \<times> string)" where
  "encode_words chk result [] = Inr (chk, result)"
| "encode_words chk result (x # xs) =
     (if x div 32 \<noteq> 0 then Inl ''Non 5-bit word''
      else encode_words (polymodStep chk XOR of_nat x) (result @ [charAt_ALPHABET x]) xs)"

definition encode_checksum :: "32 word \<Rightarrow> string" where
  "encode_checksum chk =
     map (\<lambda>i. charAt_ALPHABET (unat (signed_drop_bit ((5 - i) * 5) chk AND 0x1f))) [0, 1, 2, 3, 4, 5]"

text \<open>\<open>for (i = 0; i < 6; ++i) chk = polymodStep(chk)\<close>.\<close>

definition polymodStep6 :: "32 word \<Rightarrow> 32 word" where
  "polymodStep6 chk =
     polymodStep (polymodStep (polymodStep (polymodStep (polymodStep (polymodStep chk)))))"

definition bech32_encode :: "string \<Rightarrow> nat list \<Rightarrow> error + string" where
  "bech32_encode prefix0 ws =
     (if length prefix0 + 7 + length ws > 90 then Inl (LibraryError ''Exceeds length limit'')
      else
        let prefix = toLowerCase prefix0 in
        case prefixChk prefix of
          Inl e \<Rightarrow> Inl (LibraryError e)
        | Inr chk0 \<Rightarrow>
            (case encode_words chk0 (prefix @ ''1'') ws of
               Inl e \<Rightarrow> Inl (LibraryError e)
             | Inr (chk1, result) \<Rightarrow>
                 let chk2 = polymodStep6 chk1 XOR 1
                 in Inr (result @ encode_checksum chk2)))"

text \<open>\<open>str.lastIndexOf('1')\<close>, \<open>None\<close> for -1.\<close>

definition lastIndexOf :: "string \<Rightarrow> char \<Rightarrow> nat option" where
  "lastIndexOf s c =
     (case index_in c (rev s) of
        None \<Rightarrow> None
      | Some k \<Rightarrow> Some (length s - 1 - k))"

text \<open>
  The loop of \<open>__decode\<close> over the characters after the separator: \<open>n\<close> is how many
  remain, and the last six go into the checksum only.
\<close>

fun decode_words :: "32 word \<Rightarrow> string \<Rightarrow> string + (32 word \<times> nat list)" where
  "decode_words chk [] = Inr (chk, [])"
| "decode_words chk (c # cs) =
     (case ALPHABET_MAP c of
        None \<Rightarrow> Inl ''Unknown character''
      | Some v \<Rightarrow>
          (case decode_words (polymodStep chk XOR of_nat v) cs of
             Inl e \<Rightarrow> Inl e
           | Inr (chk', ws) \<Rightarrow> Inr (chk', if length cs < 6 then ws else v # ws)))"

definition bech32_decode :: "string \<Rightarrow> error + (string \<times> nat list)" where
  "bech32_decode str0 =
     (if length str0 < 8 then Inl (LibraryError ''too short'')
      else if length str0 > 90 then Inl (LibraryError ''Exceeds length limit'')
      else if str0 \<noteq> toLowerCase str0 \<and> str0 \<noteq> toUpperCase str0
        then Inl (LibraryError ''Mixed-case string'')
      else
        let str = toLowerCase str0 in
        case lastIndexOf str (CHR ''1'') of
          None \<Rightarrow> Inl (LibraryError ''No separator character'')
        | Some split \<Rightarrow>
            if split = 0 then Inl (LibraryError ''Missing prefix'')
            else
              let prefix = take split str; wordChars = drop (split + 1) str in
              if length wordChars < 6 then Inl (LibraryError ''Data too short'')
              else
                (case prefixChk prefix of
                   Inl e \<Rightarrow> Inl (LibraryError e)
                 | Inr chk0 \<Rightarrow>
                     (case decode_words chk0 wordChars of
                        Inl e \<Rightarrow> Inl (LibraryError e)
                      | Inr (chk, ws) \<Rightarrow>
                          if chk \<noteq> 1 then Inl (LibraryError ''Invalid checksum'')
                          else Inr (prefix, ws))))"

text \<open>
  \<open>convert(data, inBits, outBits, pad)\<close>. \<open>value\<close> is a 32-bit integer from which
  only the low \<open>bits\<close> bits are read again. The inner \<open>while\<close> loop takes
  \<open>outBits\<close> bits off at a time; it is called with 5 and 8 only.
\<close>

function convert_emit :: "nat \<Rightarrow> 32 word \<Rightarrow> nat \<Rightarrow> nat list \<Rightarrow> nat \<times> nat list" where
  "convert_emit outBits v bits result =
     (if 0 < outBits \<and> bits \<ge> outBits
      then convert_emit outBits v (bits - outBits)
             (result @ [unat (signed_drop_bit (bits - outBits) v AND (push_bit outBits 1 - 1))])
      else (bits, result))"
  by pat_completeness auto
termination
  by (relation "measure (\<lambda>(outBits, v, bits, result). bits)") auto

fun convert_loop ::
  "nat \<Rightarrow> nat \<Rightarrow> 32 word \<Rightarrow> nat \<Rightarrow> nat list \<Rightarrow> nat list \<Rightarrow> 32 word \<times> nat \<times> nat list" where
  "convert_loop inBits outBits v bits result [] = (v, bits, result)"
| "convert_loop inBits outBits v bits result (d # ds) =
     (let v' = push_bit inBits v OR of_nat d;
          (bits', result') = convert_emit outBits v' (bits + inBits) result
      in convert_loop inBits outBits v' bits' result' ds)"

definition convert :: "nat list \<Rightarrow> nat \<Rightarrow> nat \<Rightarrow> bool \<Rightarrow> string + nat list" where
  "convert data inBits outBits pad =
     (let maxV = push_bit outBits 1 - 1 :: 32 word;
          (v, bits, result) = convert_loop inBits outBits 0 0 [] data
      in if pad then
           (if bits > 0 then Inr (result @ [unat (push_bit (outBits - bits) v AND maxV)])
            else Inr result)
         else if bits \<ge> inBits then Inl ''Excess padding''
         else if push_bit (outBits - bits) v AND maxV \<noteq> 0 then Inl ''Non-zero padding''
         else Inr result)"

definition toWords :: "nat list \<Rightarrow> nat list" where
  "toWords bs = (case convert bs 8 5 True of Inr ws \<Rightarrow> ws | Inl e \<Rightarrow> [])"

definition fromWords :: "nat list \<Rightarrow> error + nat list" where
  "fromWords ws = (case convert ws 5 8 False of Inr bs \<Rightarrow> Inr bs | Inl e \<Rightarrow> Inl (LibraryError e))"

subsection \<open>The Wormhole SDK's Cosmos address helpers\<close>

text \<open>
  \<open>canonicalAddress(a) = new Uint8Array(bech32.fromWords(bech32.decode(a).words))\<close> and
  \<open>humanAddress(hrp, c) = bech32.encode(hrp, bech32.toWords(c))\<close>.
\<close>

definition canonicalAddress :: "string \<Rightarrow> error + bytes" where
  "canonicalAddress a =
     (case bech32_decode a of
        Inl e \<Rightarrow> Inl e
      | Inr (prefix, ws) \<Rightarrow>
          (case fromWords ws of
             Inl e \<Rightarrow> Inl e
           | Inr bs \<Rightarrow> Inr (map of_nat bs)))"

definition humanAddress :: "string \<Rightarrow> nat list \<Rightarrow> error + string" where
  "humanAddress hrp c = bech32_encode hrp (toWords c)"


text \<open>
  \<open>keccak256\<close> of ethers, \<open>parseVaa\<close> and \<open>parseTokenTransferPayload\<close> of the
  Wormhole SDK and \<open>logs.parseRawLog\<close> of cosmjs are parameters: the functions
  below are defined for whatever these compute. A Keccak-256 digest is a 256-bit
  number, which \<open>keccak256\<close> returns as \<open>0x\<close> and 64 hex digits.
\<close>

record parsed_vaa =
  emitterChain :: nat
  emitterAddress :: bytes
  sequence :: nat
  payload :: bytes

record token_transfer =
  amount :: nat
  tokenAddress :: bytes
  tokenChain :: nat
  transfer_to :: bytes
  toChain :: nat

record attribute =
  attr_key :: string
  attr_value :: string

record event =
  ev_type :: string
  attributes :: "attribute list"

record log =
  events :: "event list"

record library =
  keccak :: "bytes \<Rightarrow> 256 word"
  parseVaa :: "bytes \<Rightarrow> error + parsed_vaa"
  parseTokenTransferPayload :: "bytes \<Rightarrow> error + token_transfer"
  parseRawLog :: "string \<Rightarrow> error + log list"

definition hex_digit :: "nat \<Rightarrow> char" where
  "hex_digit n = ''0123456789abcdef'' ! n"

definition hex_of_byte :: "8 word \<Rightarrow> string" where
  "hex_of_byte b = [hex_digit (unat b div 16), hex_digit (unat b mod 16)]"

text \<open>The 32 bytes of a digest, most significant first.\<close>

definition digest_bytes :: "256 word \<Rightarrow> bytes" where
  "digest_bytes d = map (\<lambda>i. ucast (drop_bit (8 * (31 - i)) d)) [0..<32]"

definition keccak256 :: "library \<Rightarrow> bytes \<Rightarrow> string" where
  "keccak256 lib data = ''0x'' @ concat (map hex_of_byte (digest_bytes (keccak lib data)))"

text \<open>\<open>Buffer.from(s, 'utf-8')\<close>: the bytes of the string.\<close>

definition buffer_from_utf8 :: "string \<Rightarrow> bytes" where
  "buffer_from_utf8 s = map (\<lambda>c. of_nat (of_char c)) s"

text \<open>
  \<open>base64.encode(b)\<close> and \<open>Buffer.toString('base64')\<close> go into query and
  transaction messages only; the text is kept as the bytes it encodes.
\<close>

datatype base64 = Base64 bytes

text \<open>
  \<open>arrayify\<close> of a hex string: throws unless it is \<open>0x\<close> and an even number of hex
  digits.
\<close>

definition arrayify_hex :: "string \<Rightarrow> error + bytes" where
  "arrayify_hex s =
     (if \<not> isHexString s then Inl (LibraryError ''invalid arrayify value'')
      else if odd (length s) then Inl (LibraryError ''hex data is odd-length'')
      else Inr (buffer_from_hex (drop 2 s)))"

text \<open>
  A JavaScript value is falsy when it is \<open>undefined\<close>, \<open>null\<close> or the empty string
  (for the strings met here).
\<close>

fun falsy :: "string option \<Rightarrow> bool" where
  "falsy None = True"
| "falsy (Some s) = (s = [])"

section \<open>The Cosmos context\<close>

text \<open>
  The \<open>WormholeContext\<close> and the \<open>CosmosContracts\<close> a context is built with are
  what it reads from them: the chain registry (\<open>toChainId\<close>, \<open>toChainName\<close>), the
  configuration (\<open>conf.rpcs\<close>, \<open>conf.wormholeHosts\<close>), the asset formatter of
  another chain's context (\<open>getContext(chain).formatAssetAddress\<close>) and
  \<open>contracts.mustGetContracts\<close>.
\<close>

record contracts =
  token_bridge :: "string option"

record wormhole_context =
  toChainId :: "chain \<Rightarrow> error + nat"
  toChainName :: "chain \<Rightarrow> error + string"
  rpcs :: "string \<rightharpoonup> string"
  wormholeHosts :: "string list"
  formatAssetAddressOf :: "chain \<Rightarrow> string \<Rightarrow> error + bytes"

record cosmos_context =
  whContext :: wormhole_context
  mustGetContracts :: "chain \<Rightarrow> error + contracts"
  chain :: chain

record token_id =
  tokenId_chain :: chain
  tokenId_address :: string

text \<open>The \<open>address: any\<close> of \<open>parseAddress\<close>: a string or a byte array.\<close>

datatype address_arg = AddrString string | AddrBytes bytes

text \<open>A \<open>CosmosTransaction\<close>: the fee, the messages and the memo.\<close>

record coin =
  coin_denom :: string
  coin_amount :: nat

record std_fee =
  fee_amount :: "coin list"
  gas :: nat

datatype contract_msg = SubmitVaa base64

record encode_object =
  typeUrl :: string
  sender :: string
  contract :: string
  msg :: contract_msg
  funds :: "coin list"

record cosmos_transaction =
  fee :: std_fee
  msgs :: "encode_object list"
  memo :: string

subsection \<open>send and sendWithPayload\<close>

definition send ::
  "cosmos_context \<Rightarrow> token_id option \<Rightarrow> string \<Rightarrow> chain \<Rightarrow> string \<Rightarrow> chain \<Rightarrow> string \<Rightarrow> string option
     \<Rightarrow> error + cosmos_transaction" where
  "send ctx token amt sendingChain senderAddress recipientChain recipientAddress relayerFee =
     Inl MethodNotImplemented"

definition sendWithPayload ::
  "cosmos_context \<Rightarrow> token_id option \<Rightarrow> string \<Rightarrow> chain \<Rightarrow> string \<Rightarrow> chain \<Rightarrow> string \<Rightarrow> bytes
     \<Rightarrow> error + cosmos_transaction" where
  "sendWithPayload ctx token amt sendingChain senderAddress recipientChain recipientAddress pl =
     Inl MethodNotImplemented"

subsection \<open>Addresses\<close>

definition formatAddress :: "string \<Rightarrow> error + bytes" where
  "formatAddress address =
     (case canonicalAddress address of
        Inl e \<Rightarrow> Inl e
      | Inr c \<Rightarrow>
          (case zeroPad c 32 of
             Inl e \<Rightarrow> Inl e
           | Inr padded \<Rightarrow> Inr (arrayify padded)))"

text \<open>
  What \<open>bech32.toWords\<close> reads from a string that is handed to it in place of a
  byte array: \<open>value | data[i]\<close> takes a digit character as its number and any
  other character as 0.
\<close>

definition string_elements :: "string \<Rightarrow> nat list" where
  "string_elements s =
     map (\<lambda>c. let n = of_char c :: nat in if 48 \<le> n \<and> n \<le> 57 then n - 48 else 0) s"

definition parseAddress :: "cosmos_context \<Rightarrow> address_arg \<Rightarrow> error + string" where
  "parseAddress ctx address =
     (let prefix = PREFIXES_at (chain ctx) in
      if falsy prefix then Inl (PrefixNotFound (chain ctx))
      else
        case (case address of
                AddrString s \<Rightarrow>
                  if startsWith s ''0x''
                  then (case hexStripZeros s of
                          Inl e \<Rightarrow> Inl e
                        | Inr h \<Rightarrow> Inr (map unat (buffer_from_hex (drop 2 h))))
                  else Inr (string_elements s)
              | AddrBytes b \<Rightarrow> Inr (map unat b)) of
          Inl e \<Rightarrow> Inl e
        | Inr addr \<Rightarrow> humanAddress (the prefix) addr)"

text \<open>
  \<open>NATIVE_DENOMS[address]\<close> with any string as the key: the table is an object
  literal, so besides its own two keys the lookup finds the properties every
  object inherits, all of them truthy.
\<close>

definition OBJECT_PROTOTYPE_KEYS :: "string list" where
  "OBJECT_PROTOTYPE_KEYS =
     [''constructor'', ''__defineGetter__'', ''__defineSetter__'', ''hasOwnProperty'',
      ''__lookupGetter__'', ''__lookupSetter__'', ''isPrototypeOf'', ''propertyIsEnumerable'',
      ''toString'', ''valueOf'', ''__proto__'', ''toLocaleString'']"

definition isNative :: "string \<Rightarrow> bool" where
  "isNative address =
     (\<not> falsy (NATIVE_DENOMS address) \<or> address \<in> set OBJECT_PROTOTYPE_KEYS)"

definition buildTokenId :: "library \<Rightarrow> string \<Rightarrow> string" where
  "buildTokenId lib address =
     (if isNative address then ''01'' else ''00'')
       @ drop 4 (keccak256 lib (buffer_from_utf8 address))"

definition formatAssetAddress :: "library \<Rightarrow> string \<Rightarrow> bytes" where
  "formatAssetAddress lib address = buffer_from_hex (buildTokenId lib address)"

definition parseAssetAddress :: "cosmos_context \<Rightarrow> address_arg \<Rightarrow> error + string" where
  "parseAssetAddress ctx address =
     (let prefix = PREFIXES_at (chain ctx) in
      if falsy prefix then Inl (PrefixNotFound (chain ctx))
      else
        case (case address of
                AddrString s \<Rightarrow>
                  if startsWith s ''0x''
                  then (case hexStripZeros s of
                          Inl e \<Rightarrow> Inl e
                        | Inr h \<Rightarrow> Inr (map unat (buffer_from_hex (drop 2 h))))
                  else Inr (string_elements s)
              | AddrBytes b \<Rightarrow> Inr (map unat b)) of
          Inl e \<Rightarrow> Inl e
        | Inr addr \<Rightarrow> humanAddress (the prefix) addr)"

subsection \<open>The network and the state of a context\<close>

text \<open>
  A \<open>CosmWasmClient\<close> is the endpoint it was connected to. A context has one field
  that changes, \<open>wasmClient\<close>; the state carries with it the list of the network
  calls made so far, oldest first. The network is what it answers to each call,
  given the calls made before. A guardian request goes to one host, \<open>None\<close> for
  the \<open>undefined\<close> that indexing an empty host list gives.
\<close>

datatype client = Client string

datatype query =
    WrappedRegistry nat base64
  | IsVaaRedeemed base64

datatype net_call =
    Connect string
  | QueryContractSmart client string query
  | GetTx client string
  | GetSignedVAA "string option" nat string string

record indexed_tx =
  rawLog :: string

record network =
  connect_reply :: "net_call list \<Rightarrow> string \<Rightarrow> error option"
  wrapped_registry_reply :: "net_call list \<Rightarrow> client \<Rightarrow> string \<Rightarrow> nat \<Rightarrow> base64 \<Rightarrow> error + string"
  is_vaa_redeemed_reply :: "net_call list \<Rightarrow> client \<Rightarrow> string \<Rightarrow> base64 \<Rightarrow> error + bool"
  getTx_reply :: "net_call list \<Rightarrow> client \<Rightarrow> string \<Rightarrow> error + indexed_tx option"
  getSignedVAA_reply :: "net_call list \<Rightarrow> string option \<Rightarrow> nat \<Rightarrow> string \<Rightarrow> string \<Rightarrow> error + bytes"

record cosmos_state =
  wasmClient :: "client option"
  calls :: "net_call list"

type_synonym 'a action = "cosmos_state \<Rightarrow> (error + 'a) \<times> cosmos_state"

definition succeed :: "'a \<Rightarrow> 'a action" where
  "succeed a st = (Inr a, st)"

definition failWith :: "error \<Rightarrow> 'a action" where
  "failWith e st = (Inl e, st)"

definition pure_step :: "error + 'a \<Rightarrow> 'a action" where
  "pure_step r st = (r, st)"

definition andThen :: "'a action \<Rightarrow> ('a \<Rightarrow> 'b action) \<Rightarrow> 'b action" where
  "andThen m f st = (case m st of (Inl e, st') \<Rightarrow> (Inl e, st') | (Inr a, st') \<Rightarrow> f a st')"

definition record_call :: "net_call \<Rightarrow> cosmos_state \<Rightarrow> cosmos_state" where
  "record_call c st = st\<lparr>calls := calls st @ [c]\<rparr>"

text \<open>\<open>CosmWasmClient.connect(rpc)\<close>.\<close>

definition connect :: "network \<Rightarrow> string \<Rightarrow> client action" where
  "connect net rpc st =
     (case connect_reply net (calls st) rpc of
        Some e \<Rightarrow> (Inl e, record_call (Connect rpc) st)
      | None \<Rightarrow> (Inr (Client rpc), record_call (Connect rpc) st))"

definition queryWrappedRegistry ::
  "network \<Rightarrow> client \<Rightarrow> string \<Rightarrow> nat \<Rightarrow> base64 \<Rightarrow> string action" where
  "queryWrappedRegistry net c address chainId base64Addr st =
     (wrapped_registry_reply net (calls st) c address chainId base64Addr,
      record_call (QueryContractSmart c address (WrappedRegistry chainId base64Addr)) st)"

definition queryIsVaaRedeemed :: "network \<Rightarrow> client \<Rightarrow> string \<Rightarrow> base64 \<Rightarrow> bool action" where
  "queryIsVaaRedeemed net c address vaa st =
     (is_vaa_redeemed_reply net (calls st) c address vaa,
      record_call (QueryContractSmart c address (IsVaaRedeemed vaa)) st)"

definition getTx :: "network \<Rightarrow> client \<Rightarrow> string \<Rightarrow> indexed_tx option action" where
  "getTx net c txId st = (getTx_reply net (calls st) c txId, record_call (GetTx c txId) st)"

definition getSignedVAA ::
  "network \<Rightarrow> string option \<Rightarrow> nat \<Rightarrow> string \<Rightarrow> string \<Rightarrow> bytes action" where
  "getSignedVAA net host chainId emitter sq st =
     (getSignedVAA_reply net (calls st) host chainId emitter sq,
      record_call (GetSignedVAA host chainId emitter sq) st)"

subsection \<open>getCosmWasmClient\<close>

text \<open>
  The method tests \<open>this.wasmClient\<close>, and when it is not set calls
  \<open>CosmWasmClient.connect\<close> and awaits the result; the assignment to
  \<open>this.wasmClient\<close> comes after the await. Other code of the same context can run
  at the await, so the method is two steps. The first runs up to the await: it
  throws, or returns the client the context holds, or has called \<open>connect\<close> and
  waits for its promise (the client, or the error it is rejected with). The
  second runs from the await to the end.
\<close>

datatype client_step = Return client | Await "error + client"

definition getCosmWasmClient_until_await ::
  "network \<Rightarrow> cosmos_context \<Rightarrow> chain \<Rightarrow> client_step action" where
  "getCosmWasmClient_until_await net ctx ch st =
     (case wasmClient st of
        None \<Rightarrow>
          andThen (pure_step (toChainName (whContext ctx) ch)) (\<lambda>name.
            let rpc = rpcs (whContext ctx) name in
            if falsy rpc then failWith RpcNotConfigured
            else (\<lambda>st0. case connect net (the rpc) st0 of
                          (promise, st') \<Rightarrow> (Inr (Await promise), st'))) st
      | Some c \<Rightarrow> (Inr (Return c), st))"

definition getCosmWasmClient_after_await :: "error + client \<Rightarrow> client action" where
  "getCosmWasmClient_after_await promise st =
     (case promise of
        Inl e \<Rightarrow> (Inl e, st)
      | Inr c \<Rightarrow> (Inr c, st\<lparr>wasmClient := Some c\<rparr>))"

text \<open>The rest of a call, from where its first step left it.\<close>

definition getCosmWasmClient_resume :: "error + client_step \<Rightarrow> client action" where
  "getCosmWasmClient_resume step st =
     (case step of
        Inl e \<Rightarrow> (Inl e, st)
      | Inr (Return c) \<Rightarrow> (Inr c, st)
      | Inr (Await promise) \<Rightarrow> getCosmWasmClient_after_await promise st)"

text \<open>A call that nothing else of the context runs in: the two steps in a row.\<close>

definition getCosmWasmClient :: "network \<Rightarrow> cosmos_context \<Rightarrow> chain \<Rightarrow> client action" where
  "getCosmWasmClient net ctx ch st =
     (case getCosmWasmClient_until_await net ctx ch st of
        (step, st') \<Rightarrow> getCosmWasmClient_resume step st')"

text \<open>
  Two calls that overlap: the second starts while the first waits for its
  connection, then the first finishes, then the second. And a list of calls one
  after the other, each finished before the next starts.
\<close>

definition getCosmWasmClient_overlapping ::
  "network \<Rightarrow> cosmos_context \<Rightarrow> chain \<Rightarrow> chain \<Rightarrow> cosmos_state
     \<Rightarrow> ((error + client) \<times> (error + client)) \<times> cosmos_state" where
  "getCosmWasmClient_overlapping net ctx ch1 ch2 st =
     (case getCosmWasmClient_until_await net ctx ch1 st of (step1, st1) \<Rightarrow>
      case getCosmWasmClient_until_await net ctx ch2 st1 of (step2, st2) \<Rightarrow>
      case getCosmWasmClient_resume step1 st2 of (r1, st3) \<Rightarrow>
      case getCosmWasmClient_resume step2 st3 of (r2, st4) \<Rightarrow> ((r1, r2), st4))"

fun getCosmWasmClient_in_turn ::
  "network \<Rightarrow> cosmos_context \<Rightarrow> chain list \<Rightarrow> cosmos_state
     \<Rightarrow> (error + client) list \<times> cosmos_state" where
  "getCosmWasmClient_in_turn net ctx [] st = ([], st)"
| "getCosmWasmClient_in_turn net ctx (ch # chs) st =
     (case getCosmWasmClient net ctx ch st of (r, st1) \<Rightarrow>
      case getCosmWasmClient_in_turn net ctx chs st1 of (rs, st2) \<Rightarrow> (r # rs, st2))"

text \<open>
  The other methods are one operation at a time: each of their awaits runs to
  its end before the next statement.
\<close>

subsection \<open>getForeignAsset and mustGetForeignAsset\<close>

definition getForeignAsset ::
  "network \<Rightarrow> cosmos_context \<Rightarrow> token_id \<Rightarrow> chain \<Rightarrow> string option action" where
  "getForeignAsset net ctx tokenId ch =
     andThen (pure_step (toChainId (whContext ctx) ch)) (\<lambda>toChainId'.
     andThen (pure_step (toChainId (whContext ctx) (tokenId_chain tokenId))) (\<lambda>chainId.
       if toChainId' = chainId then succeed (Some (tokenId_address tokenId))
       else
         andThen (getCosmWasmClient net ctx ch) (\<lambda>wasmClient'.
         andThen (pure_step (mustGetContracts ctx ch)) (\<lambda>cs.
           if falsy (token_bridge cs) then failWith TokenBridgeContractNotFound
           else
             andThen (pure_step (formatAssetAddressOf (whContext ctx) (tokenId_chain tokenId)
                                   (tokenId_address tokenId))) (\<lambda>tokenAddr.
               let base64Addr = Base64 tokenAddr in
               (\<lambda>st. case queryWrappedRegistry net wasmClient' (the (token_bridge cs))
                               chainId base64Addr st of
                        (Inr address, st') \<Rightarrow> (Inr (Some address), st')
                      | (Inl e, st') \<Rightarrow> (Inr None, st')))))))"

definition mustGetForeignAsset ::
  "network \<Rightarrow> cosmos_context \<Rightarrow> token_id \<Rightarrow> chain \<Rightarrow> string action" where
  "mustGetForeignAsset net ctx tokenId ch =
     andThen (getForeignAsset net ctx tokenId ch) (\<lambda>assetAdddress.
       if falsy assetAdddress then failWith TokenNotRegistered
       else succeed (the assetAdddress))"

subsection \<open>redeem\<close>









subsection \<open>isTransferCompleted\<close>

definition isTransferCompleted ::
  "network \<Rightarrow> cosmos_context \<Rightarrow> chain \<Rightarrow> string \<Rightarrow> bool action" where
  "isTransferCompleted net ctx destChain signedVaa =
     andThen (pure_step (mustGetContracts ctx (chain ctx))) (\<lambda>cs.
       if falsy (token_bridge cs) then failWith TokenBridgeContractNotFound
       else
         andThen (getCosmWasmClient net ctx destChain) (\<lambda>c.
         andThen (pure_step (arrayify_hex signedVaa)) (\<lambda>vaaBytes.
           queryIsVaaRedeemed net c (the (token_bridge cs)) (Base64 vaaBytes))))"

subsection \<open>getVaa\<close>

fun searchAttributes :: "string \<Rightarrow> attribute list \<Rightarrow> string option" where
  "searchAttributes key [] = None"
| "searchAttributes key (a # as) =
     (if attr_key a = key then Some (attr_value a) else searchAttributes key as)"

fun searchEvents :: "string \<Rightarrow> event list \<Rightarrow> string option" where
  "searchEvents key [] = None"
| "searchEvents key (ev # evs) =
     (case searchAttributes key (attributes ev) of
        Some v \<Rightarrow> Some v
      | None \<Rightarrow> searchEvents key evs)"

fun searchLogs :: "string \<Rightarrow> log list \<Rightarrow> string option" where
  "searchLogs key [] = None"
| "searchLogs key (l # ls) =
     (case searchEvents key (events l) of
        Some v \<Rightarrow> Some v
      | None \<Rightarrow> searchLogs key ls)"

text \<open>
  \<open>getSignedVAAWithRetry\<close> is a function of the Wormhole SDK, the library the
  context imports it from, like the bech32 and ethers functions above. \<open>getVaa\<close>
  calls it with the default delay between requests and a \<open>retryAttempts\<close>. Its
  loop:
  \<^verbatim>\<open>
  let currentWormholeRpcHost = -1;
  const getNextRpcHost = () => ++currentWormholeRpcHost % hosts.length;
  let result;
  let attempts = 0;
  while (!result) {
    attempts++;
    await new Promise((resolve) => setTimeout(resolve, retryTimeout));
    try {
      result = await getSignedVAA(hosts[getNextRpcHost()], emitterChain,
                                  emitterAddress, sequence, extraGrpcOpts);
    } catch (e) {
      if (retryAttempts !== undefined && attempts > retryAttempts) throw e;
    }
  }
  return result;
  \<close>
  \<open>currentWormholeRpcHost\<close> is \<open>attempts - 1\<close> all along, so the host of a request
  is the one at the number of requests made before it, modulo the number of
  hosts. The loop function takes \<open>attempts\<close> as it is at the head of the loop.
\<close>

definition host_at :: "string list \<Rightarrow> nat \<Rightarrow> string option" where
  "host_at hosts n = (if hosts = [] then None else Some (hosts ! (n mod length hosts)))"

function getSignedVAAWithRetry_from ::
  "network \<Rightarrow> string list \<Rightarrow> nat \<Rightarrow> string \<Rightarrow> string \<Rightarrow> nat \<Rightarrow> nat \<Rightarrow> bytes action" where
  "getSignedVAAWithRetry_from net hosts chainId emitter sq retryAttempts attempts st =
     (case getSignedVAA net (host_at hosts attempts) chainId emitter sq st of
        (Inr result, st') \<Rightarrow> (Inr result, st')
      | (Inl e, st') \<Rightarrow>
          if attempts + 1 > retryAttempts then (Inl e, st')
          else getSignedVAAWithRetry_from net hosts chainId emitter sq retryAttempts
                 (attempts + 1) st')"
  by pat_completeness auto
termination
  by (relation "measure (\<lambda>(net, hosts, chainId, emitter, sq, retryAttempts, attempts, st).
                            retryAttempts - attempts)") auto

declare getSignedVAAWithRetry_from.simps [simp del]

definition getSignedVAAWithRetry ::
  "network \<Rightarrow> string list \<Rightarrow> nat \<Rightarrow> string \<Rightarrow> string \<Rightarrow> nat \<Rightarrow> bytes action" where
  "getSignedVAAWithRetry net hosts chainId emitter sq retryAttempts =
     getSignedVAAWithRetry_from net hosts chainId emitter sq retryAttempts 0"

text \<open>
  The request number \<open>j\<close> (from 0) of such a loop, and the answer to it when the
  loop started after the calls \<open>before\<close>.
\<close>

definition guardian_request :: "string list \<Rightarrow> nat \<Rightarrow> string \<Rightarrow> string \<Rightarrow> nat \<Rightarrow> net_call" where
  "guardian_request hosts chainId emitter sq j = GetSignedVAA (host_at hosts j) chainId emitter sq"

definition guardian_reply ::
  "network \<Rightarrow> net_call list \<Rightarrow> string list \<Rightarrow> nat \<Rightarrow> string \<Rightarrow> string \<Rightarrow> nat \<Rightarrow> error + bytes" where
  "guardian_reply net before hosts chainId emitter sq j =
     getSignedVAA_reply net
       (before @ map (guardian_request hosts chainId emitter sq) [0..<j])
       (host_at hosts j) chainId emitter sq"

record vaa_info =
  transaction :: indexed_tx
  rawVaa :: bytes
  vaa :: parsed_vaa

definition getVaa ::
  "library \<Rightarrow> network \<Rightarrow> cosmos_context \<Rightarrow> string \<Rightarrow> chain \<Rightarrow> vaa_info action" where
  "getVaa lib net ctx txId ch =
     andThen (getCosmWasmClient net ctx ch) (\<lambda>c.
     andThen (getTx net c txId) (\<lambda>tx.
       if tx = None then failWith TxNotFound
       else
         andThen (pure_step (parseRawLog lib (rawLog (the tx)))) (\<lambda>logs.
           let sq = searchLogs ''message.sequence'' logs in
           if falsy sq then failWith SequenceNotFound
           else
             let emitter = searchLogs ''message.sender'' logs in
             if falsy emitter then failWith EmitterNotFound
             else
               andThen (pure_step (toChainId (whContext ctx) ch)) (\<lambda>chainId.
               andThen (getSignedVAAWithRetry net (wormholeHosts (whContext ctx)) chainId
                          (the emitter) (the sq) 3) (\<lambda>vaaBytes.
               andThen (pure_step (parseVaa lib vaaBytes)) (\<lambda>parsed.
                 succeed \<lparr>transaction = the tx, rawVaa = vaaBytes, vaa = parsed\<rparr>))))))"

section \<open>The error kinds of the specification\<close>

text \<open>
  Section 7 of the specification names four kinds of failure. The code throws
  plain \<open>Error\<close> objects; each throw site belongs to the kind its message says.
  No throw site is of the kind \<open>AttestationUnavailable\<close>.
\<close>

datatype error_kind = ConfigurationError | NotRegistered | NotImplemented
  | AttestationUnavailableError | OtherError

fun kind_of :: "error \<Rightarrow> error_kind" where
  "kind_of MethodNotImplemented = NotImplemented"
| "kind_of NotImplementedError = NotImplemented"
| "kind_of RpcNotConfigured = ConfigurationError"
| "kind_of TokenBridgeContractNotFound = ConfigurationError"
| "kind_of (NoTokenBridgeFound ch) = ConfigurationError"
| "kind_of TokenNotRegistered = NotRegistered"
| "kind_of e = OtherError"

section \<open>Concrete contexts and networks\<close>

text \<open>
  A registry of three chains with their Wormhole chain ids, a configured context
  for Osmosis, one built with a chain id in place of the name, and one with no
  RPC endpoint and no token bridge address.
\<close>

definition example_toChainId :: "chain \<Rightarrow> error + nat" where
  "example_toChainId ch =
     (case ch of
        ChainId i \<Rightarrow> Inr i
      | ChainName n \<Rightarrow>
          if n = ''osmosis'' then Inr 20
          else if n = ''wormchain'' then Inr 3104
          else if n = ''ethereum'' then Inr 2
          else Inl (LibraryError ''unknown chain''))"

definition example_toChainName :: "chain \<Rightarrow> error + string" where
  "example_toChainName ch =
     (case ch of
        ChainName n \<Rightarrow> Inr n
      | ChainId i \<Rightarrow>
          if i = 20 then Inr ''osmosis''
          else if i = 3104 then Inr ''wormchain''
          else if i = 2 then Inr ''ethereum''
          else Inl (LibraryError ''unknown chain''))"

definition example_wormhole :: wormhole_context where
  "example_wormhole =
     \<lparr>toChainId = example_toChainId,
      toChainName = example_toChainName,
      rpcs = [''osmosis'' \<mapsto> ''https://rpc.osmosis.example'',
              ''wormchain'' \<mapsto> ''https://rpc.wormchain.example''],
      wormholeHosts = [''https://guardian.example''],
      formatAssetAddressOf = (\<lambda>ch a. zeroPad (buffer_from_utf8 a) 32)\<rparr>"

definition example_contracts :: "chain \<Rightarrow> error + contracts" where
  "example_contracts ch =
     (case example_toChainName ch of
        Inl e \<Rightarrow> Inl e
      | Inr n \<Rightarrow>
          if n = ''osmosis'' then Inr \<lparr>token_bridge = Some ''osmo1tokenbridge''\<rparr>
          else if n = ''wormchain'' then Inr \<lparr>token_bridge = Some ''wormchain1tokenbridge''\<rparr>
          else Inr \<lparr>token_bridge = None\<rparr>)"

definition osmosis_context :: cosmos_context where
  "osmosis_context =
     \<lparr>whContext = example_wormhole, mustGetContracts = example_contracts,
      chain = ChainName ''osmosis''\<rparr>"

definition osmosis_id_context :: cosmos_context where
  "osmosis_id_context =
     \<lparr>whContext = example_wormhole, mustGetContracts = example_contracts,
      chain = ChainId 20\<rparr>"

definition unconfigured_context :: cosmos_context where
  "unconfigured_context =
     \<lparr>whContext = example_wormhole\<lparr>rpcs := Map.empty\<rparr>,
      mustGetContracts = (\<lambda>ch. Inr \<lparr>token_bridge = None\<rparr>),
      chain = ChainName ''osmosis''\<rparr>"

text \<open>A network on which every call fails, and the state of a new context.\<close>

definition network_down :: network where
  "network_down =
     \<lparr>connect_reply = (\<lambda>cs rpc. Some (NetworkError ''unreachable'')),
      wrapped_registry_reply = (\<lambda>cs c a i b. Inl (NetworkError ''unreachable'')),
      is_vaa_redeemed_reply = (\<lambda>cs c a b. Inl (NetworkError ''unreachable'')),
      getTx_reply = (\<lambda>cs c t. Inl (NetworkError ''unreachable'')),
      getSignedVAA_reply = (\<lambda>cs h i e q. Inl (NetworkError ''unreachable''))\<rparr>"

definition new_context_state :: cosmos_state where
  "new_context_state = \<lparr>wasmClient = None, calls = []\<rparr>"

text \<open>
  A network that can be reached, on which the registry knows no wrapped asset,
  no transfer is redeemed and the guardians have no attestation.
\<close>

definition network_up :: network where
  "network_up =
     \<lparr>connect_reply = (\<lambda>cs rpc. None),
      wrapped_registry_reply = (\<lambda>cs c a i b. Inl (NetworkError ''not found'')),
      is_vaa_redeemed_reply = (\<lambda>cs c a b. Inr False),
      getTx_reply = (\<lambda>cs c t. Inr (Some \<lparr>rawLog = ''raw log''\<rparr>)),
      getSignedVAA_reply = (\<lambda>cs h i e q. Inl (NetworkError ''not found''))\<rparr>"

definition empty_address_token :: token_id where
  "empty_address_token = \<lparr>tokenId_chain = ChainName ''osmosis'', tokenId_address = []\<rparr>"

definition uosmo_token :: token_id where
  "uosmo_token = \<lparr>tokenId_chain = ChainName ''osmosis'', tokenId_address = ''uosmo''\<rparr>"

text \<open>
  The parsers of the Wormhole wire format, for the examples: a signed VAA is a
  6-byte header, 66 bytes for each signature and a body whose payload starts at
  byte 51; a token transfer payload has its type in byte 0 and the recipient in
  bytes 67 to 98. The digest function of the examples is not the real one; no
  example looks at a digest.
\<close>

definition be_nat :: "bytes \<Rightarrow> nat" where
  "be_nat bs = foldl (\<lambda>a b. 256 * a + unat b) 0 bs"

definition wire_parseVaa :: "bytes \<Rightarrow> error + parsed_vaa" where
  "wire_parseVaa bs =
     (if length bs < 6 then Inl (LibraryError ''out of range'')
      else
        let body = drop (6 + 66 * unat (bs ! 5)) bs in
        if length body < 50 then Inl (LibraryError ''out of range'')
        else Inr \<lparr>emitterChain = be_nat (take 2 (drop 8 body)),
                  emitterAddress = take 32 (drop 10 body),
                  sequence = be_nat (take 8 (drop 42 body)),
                  payload = drop 51 body\<rparr>)"

definition wire_parseTokenTransferPayload :: "bytes \<Rightarrow> error + token_transfer" where
  "wire_parseTokenTransferPayload p =
     (if length p < 1 then Inl (LibraryError ''out of range'')
      else if p ! 0 \<noteq> 1 \<and> p ! 0 \<noteq> 3 then Inl (LibraryError ''not token bridge transfer VAA'')
      else if length p < 101 then Inl (LibraryError ''out of range'')
      else Inr \<lparr>amount = be_nat (take 32 (drop 1 p)),
                tokenAddress = take 32 (drop 33 p),
                tokenChain = be_nat (take 2 (drop 65 p)),
                transfer_to = take 32 (drop 67 p),
                toChain = be_nat (take 2 (drop 99 p))\<rparr>)"

definition example_logs :: "log list" where
  "example_logs =
     [\<lparr>events =
        [\<lparr>ev_type = ''wasm'',
          attributes =
            [\<lparr>attr_key = ''message.sender'', attr_value = ''osmo1tokenbridge''\<rparr>,
             \<lparr>attr_key = ''message.sequence'', attr_value = ''42''\<rparr>]\<rparr>]\<rparr>]"

definition example_library :: library where
  "example_library =
     \<lparr>keccak = (\<lambda>bs. 0),
      parseVaa = wire_parseVaa,
      parseTokenTransferPayload = wire_parseTokenTransferPayload,
      parseRawLog = (\<lambda>s. if s = ''raw log'' then Inr example_logs
                          else Inl (LibraryError ''invalid log''))\<rparr>"


definition example_recipient :: bytes where
  "example_recipient =
     [0, 0, 0, 0, 0, 0, 0, 0, 0, 0, 0, 0,
      1, 2, 3, 4, 5, 6, 7, 8, 9, 10, 11, 12, 13, 14, 15, 16, 17, 18, 19, 20]"

definition example_payload :: bytes where
  "example_payload =
     [1, 0, 0, 0, 0, 0, 0, 0, 0, 0, 0, 0, 0, 0, 0, 0, 0, 0, 0, 0, 0, 0, 0, 0, 0, 0,
      0, 0, 0, 0, 0, 0, 100, 0, 0, 0, 0, 0, 0, 0, 0, 0, 0, 0, 0, 0, 0, 0, 0, 0, 0, 0,
      0, 0, 0, 0, 0, 0, 0, 0, 0, 0, 0, 0, 0, 0, 20, 0, 0, 0, 0, 0, 0, 0, 0, 0, 0, 0,
      0, 1, 2, 3, 4, 5, 6, 7, 8, 9, 10, 11, 12, 13, 14, 15, 16, 17, 18, 19, 20, 0,
      20, 0, 0, 0, 0, 0, 0, 0, 0, 0, 0, 0, 0, 0, 0, 0, 0, 0, 0, 0, 0, 0, 0, 0, 0, 0,
      0, 0, 0, 0, 0, 0, 0]"

definition example_vaa :: bytes where
  "example_vaa =
     [1, 0, 0, 0, 0, 0, 0, 0, 0, 1, 0, 0, 0, 0, 0, 20, 0, 0, 0, 0, 0, 0, 0, 0, 0, 0,
      0, 0, 0, 0, 0, 0, 0, 0, 0, 0, 0, 0, 0, 0, 0, 0, 0, 0, 0, 0, 0, 7, 0, 0, 0, 0,
      0, 0, 0, 42, 1] @ example_payload"

text \<open>The calls to the guardian network among the network calls.\<close>

fun is_guardian_call :: "net_call \<Rightarrow> bool" where
  "is_guardian_call (GetSignedVAA h i e q) = True"
| "is_guardian_call c = False"

text \<open>
  A network on which the guardians have the example attestation from the third
  request on.
\<close>

definition network_third_attempt :: network where
  "network_third_attempt =
     network_up\<lparr>getSignedVAA_reply :=
       (\<lambda>cs h i e q. if length (filter is_guardian_call cs) < 2
                      then Inl (NetworkError ''not found'') else Inr example_vaa)\<rparr>"

definition example_address :: string where
  "example_address = ''osmo1qypqxpq9qcrsszg2pvxq6rs0zqg3yyc5helwsw''"

definition example_recipient_hex :: string where
  "example_recipient_hex = ''0x0000000000000000000000000102030405060708090a0b0c0d0e0f1011121314''"

definition example_contract_bytes :: bytes where
  "example_contract_bytes =
     [1, 2, 3, 4, 5, 6, 7, 8, 9, 10, 11, 12, 13, 14, 15, 16,
      17, 18, 19, 20, 21, 22, 23, 24, 25, 26, 27, 28, 29, 30, 31, 32]"

definition example_contract_address :: string where
  "example_contract_address
     = ''osmo1qypqxpq9qcrsszg2pvxq6rs0zqg3yyc5z5tpwxqergd3c8g7rusq4z5ese''"

section \<open>send\<close>

text \<open>
  C7, as the code has it: \<open>send\<close> of the Cosmos context is a stub. Every call
  fails with \<open>Error('Method not implemented.')\<close>, of the kind \<open>NotImplemented\<close>,
  whatever the configuration is; it reads no configuration and puts no default
  in the place of a missing one.
\<close>

theorem send_not_implemented:
  "send ctx token amt sendingChain senderAddress recipientChain recipientAddress relayerFee
     = Inl MethodNotImplemented
   \<and> kind_of MethodNotImplemented = NotImplemented"
  by (simp add: send_def)

text \<open>
  C7, as the claim states it, fails: on a context with no RPC endpoint and no
  token bridge address \<open>send\<close> fails, but not with a \<open>ConfigurationError\<close>.
\<close>

theorem send_configuration_error_counterexample:
  "rpcs (whContext unconfigured_context) ''osmosis'' = None
   \<and> mustGetContracts unconfigured_context (ChainName ''osmosis'') = Inr \<lparr>token_bridge = None\<rparr>
   \<and> send unconfigured_context None ''1'' (ChainName ''osmosis'') ''osmo1sender''
         (ChainName ''wormchain'') ''wormchain1recipient'' None = Inl MethodNotImplemented
   \<and> kind_of MethodNotImplemented \<noteq> ConfigurationError"
  by (simp add: send_def unconfigured_context_def example_wormhole_def)

section \<open>parseAddress and parseAssetAddress\<close>

text \<open>
  C10: \<open>parseAssetAddress\<close> returns for every input exactly what \<open>parseAddress\<close>
  returns, with no registry lookup (neither takes the network), and both fail
  with the prefix error when the context's chain has no entry in \<open>PREFIXES\<close>.
\<close>

theorem parseAssetAddress_is_parseAddress:
  "parseAssetAddress ctx x = parseAddress ctx x
   \<and> (PREFIXES_at (chain ctx) = None \<longrightarrow>
        parseAddress ctx x = Inl (PrefixNotFound (chain ctx))
        \<and> parseAssetAddress ctx x = Inl (PrefixNotFound (chain ctx)))"
  by (simp add: parseAssetAddress_def parseAddress_def)

theorem parseAssetAddress_is_parseAddress_witness:
  "PREFIXES_at (chain osmosis_id_context) = None
   \<and> parseAssetAddress osmosis_id_context (AddrString ''0x01'')
        = parseAddress osmosis_id_context (AddrString ''0x01'')
   \<and> parseAddress osmosis_id_context (AddrString ''0x01'')
        = Inl (PrefixNotFound (ChainId 20))
   \<and> parseAssetAddress osmosis_id_context (AddrString ''0x01'')
        = Inl (PrefixNotFound (ChainId 20))"
proof -
  have none: "PREFIXES_at (chain osmosis_id_context) = None"
    by (simp add: osmosis_id_context_def)
  have ch: "chain osmosis_id_context = ChainId 20"
    by (simp add: osmosis_id_context_def)
  from parseAssetAddress_is_parseAddress [of osmosis_id_context "AddrString ''0x01''"] none ch
  show ?thesis by simp
qed

section \<open>getForeignAsset\<close>

text \<open>
  C2: when the queried chain and the token's home chain resolve to the same
  chain id, \<open>getForeignAsset\<close> returns the token's own address and leaves the
  state as it was: no client is created and no call is added to the list of
  network calls.
\<close>

theorem getForeignAsset_home_chain:
  assumes "toChainId (whContext ctx) ch = Inr i"
    and "toChainId (whContext ctx) (tokenId_chain tokenId) = Inr i"
  shows "getForeignAsset net ctx tokenId ch st = (Inr (Some (tokenId_address tokenId)), st)"
  using assms by (simp add: getForeignAsset_def andThen_def pure_step_def succeed_def)

theorem getForeignAsset_home_chain_witness:
  "toChainId (whContext osmosis_context) (ChainId 20) = Inr 20
   \<and> toChainId (whContext osmosis_context)
        (tokenId_chain \<lparr>tokenId_chain = ChainName ''osmosis'', tokenId_address = ''uosmo''\<rparr>) = Inr 20
   \<and> getForeignAsset network_down osmosis_context
        \<lparr>tokenId_chain = ChainName ''osmosis'', tokenId_address = ''uosmo''\<rparr> (ChainId 20)
        new_context_state
      = (Inr (Some ''uosmo''), new_context_state)"
proof -
  have a: "toChainId (whContext osmosis_context) (ChainId 20) = Inr 20"
    by (simp add: osmosis_context_def example_wormhole_def example_toChainId_def)
  have b: "toChainId (whContext osmosis_context)
             (tokenId_chain \<lparr>tokenId_chain = ChainName ''osmosis'', tokenId_address = ''uosmo''\<rparr>)
           = Inr 20"
    by (simp add: osmosis_context_def example_wormhole_def example_toChainId_def)
  from getForeignAsset_home_chain [OF a b, of network_down new_context_state] a b
  show ?thesis by simp
qed

section \<open>mustGetForeignAsset\<close>

lemma andThen_Inr: "m st = (Inr a, st') \<Longrightarrow> andThen m f st = f a st'"
  by (simp add: andThen_def)

lemma andThen_Inl: "m st = (Inl e, st') \<Longrightarrow> andThen m f st = (Inl e, st')"
  by (simp add: andThen_def)

lemma osmosis_home_chain_ids:
  "toChainId (whContext osmosis_context) (ChainName ''osmosis'') = Inr 20"
  by (simp add: osmosis_context_def example_wormhole_def example_toChainId_def)

lemma getForeignAsset_osmosis_home:
  "tokenId_chain t = ChainName ''osmosis'' \<Longrightarrow>
   getForeignAsset net osmosis_context t (ChainName ''osmosis'') st
     = (Inr (Some (tokenId_address t)), st)"
  by (simp add: getForeignAsset_def andThen_def pure_step_def succeed_def osmosis_home_chain_ids)

text \<open>
  C6, as the code has it: \<open>mustGetForeignAsset\<close> tests the result of
  \<open>getForeignAsset\<close> with \<open>!\<close>, so it fails with \<open>token not registered\<close> when the
  result is \<open>null\<close> or the empty string, returns the address when it is a
  non-empty string, and passes on the failure of \<open>getForeignAsset\<close> itself.
\<close>

theorem mustGetForeignAsset_of_getForeignAsset:
  "mustGetForeignAsset net ctx tokenId ch st =
     (case getForeignAsset net ctx tokenId ch st of
        (Inl e, st') \<Rightarrow> (Inl e, st')
      | (Inr None, st') \<Rightarrow> (Inl TokenNotRegistered, st')
      | (Inr (Some a), st') \<Rightarrow>
          if a = [] then (Inl TokenNotRegistered, st') else (Inr a, st'))"
  by (simp add: mustGetForeignAsset_def andThen_def failWith_def succeed_def
        split: prod.splits sum.splits option.splits)

theorem mustGetForeignAsset_of_getForeignAsset_witness:
  "getForeignAsset network_down osmosis_context uosmo_token (ChainName ''osmosis'')
     new_context_state = (Inr (Some ''uosmo''), new_context_state)
   \<and> mustGetForeignAsset network_down osmosis_context uosmo_token (ChainName ''osmosis'')
     new_context_state = (Inr ''uosmo'', new_context_state)"
proof -
  have g: "getForeignAsset network_down osmosis_context uosmo_token (ChainName ''osmosis'')
             new_context_state = (Inr (Some ''uosmo''), new_context_state)"
    using getForeignAsset_osmosis_home [of uosmo_token] by (simp add: uosmo_token_def)
  from mustGetForeignAsset_of_getForeignAsset
         [of network_down osmosis_context uosmo_token "ChainName ''osmosis''" new_context_state] g
  show ?thesis by simp
qed

text \<open>
  C6, as the claim states it, fails: for a token whose address is the empty
  string, asked for on its home chain, \<open>getForeignAsset\<close> returns that address,
  which is not \<open>null\<close>, and \<open>mustGetForeignAsset\<close> fails.
\<close>

theorem mustGetForeignAsset_empty_address_counterexample:
  "getForeignAsset network_down osmosis_context empty_address_token (ChainName ''osmosis'')
     new_context_state = (Inr (Some []), new_context_state)
   \<and> mustGetForeignAsset network_down osmosis_context empty_address_token (ChainName ''osmosis'')
     new_context_state = (Inl TokenNotRegistered, new_context_state)"
proof -
  have g: "getForeignAsset network_down osmosis_context empty_address_token
             (ChainName ''osmosis'') new_context_state = (Inr (Some []), new_context_state)"
    using getForeignAsset_osmosis_home [of empty_address_token]
    by (simp add: empty_address_token_def)
  then show ?thesis
    by (simp add: mustGetForeignAsset_def andThen_def failWith_def)
qed

section \<open>getCosmWasmClient\<close>

text \<open>
  A call on its own is the test, the connection and the assignment in a row.
\<close>

lemma getCosmWasmClient_atomic:
  "getCosmWasmClient net ctx ch st =
     (case wasmClient st of
        None \<Rightarrow>
          andThen (pure_step (toChainName (whContext ctx) ch)) (\<lambda>name.
            let rpc = rpcs (whContext ctx) name in
            if falsy rpc then failWith RpcNotConfigured
            else andThen (connect net (the rpc)) (\<lambda>c st'.
              (Inr c, st'\<lparr>wasmClient := Some c\<rparr>))) st
      | Some c \<Rightarrow> (Inr c, st))"
  by (auto simp: getCosmWasmClient_def getCosmWasmClient_until_await_def
        getCosmWasmClient_resume_def getCosmWasmClient_after_await_def andThen_def
        pure_step_def failWith_def connect_def Let_def
        split: option.splits sum.splits prod.splits)

lemma getCosmWasmClient_Some:
  "wasmClient st = Some c \<Longrightarrow> getCosmWasmClient net ctx ch st = (Inr c, st)"
  by (simp add: getCosmWasmClient_atomic)

lemma getCosmWasmClient_None:
  assumes "wasmClient st = None" and "getCosmWasmClient net ctx ch st = (Inr c, st')"
  shows "\<exists>name rpc. toChainName (whContext ctx) ch = Inr name
           \<and> rpcs (whContext ctx) name = Some rpc \<and> rpc \<noteq> []
           \<and> connect_reply net (calls st) rpc = None
           \<and> c = Client rpc
           \<and> st' = st\<lparr>wasmClient := Some (Client rpc), calls := calls st @ [Connect rpc]\<rparr>"
proof (cases "toChainName (whContext ctx) ch")
  case (Inl e)
  with assms show ?thesis
    by (simp add: getCosmWasmClient_atomic andThen_def pure_step_def)
next
  case (Inr name)
  show ?thesis
  proof (cases "rpcs (whContext ctx) name")
    case None
    with assms Inr show ?thesis
      by (simp add: getCosmWasmClient_atomic andThen_def pure_step_def failWith_def)
  next
    case (Some rpc)
    with assms Inr show ?thesis
      by (auto simp: getCosmWasmClient_atomic andThen_def pure_step_def failWith_def connect_def
            record_call_def split: if_splits option.splits)
  qed
qed

lemma getCosmWasmClient_sets_client:
  assumes "getCosmWasmClient net ctx ch st = (Inr c, st')"
  shows "wasmClient st' = Some c"
proof (cases "wasmClient st")
  case None
  from getCosmWasmClient_None [OF None assms] show ?thesis by auto
next
  case (Some c0)
  with assms show ?thesis by (simp add: getCosmWasmClient_atomic)
qed

lemma getCosmWasmClient_in_turn_cached:
  "wasmClient st = Some c \<Longrightarrow>
   getCosmWasmClient_in_turn net ctx chs st = (replicate (length chs) (Inr c), st)"
  by (induction chs) (simp_all add: getCosmWasmClient_Some)

lemma getCosmWasmClient_in_turn_one_client:
  "getCosmWasmClient_in_turn net ctx chs st = (rs, st') \<Longrightarrow>
   Inr c1 \<in> set rs \<Longrightarrow> Inr c2 \<in> set rs \<Longrightarrow> c1 = c2"
proof (induction chs arbitrary: st rs)
  case Nil
  then show ?case by simp
next
  case (Cons ch chs)
  obtain r st1 where r: "getCosmWasmClient net ctx ch st = (r, st1)"
    by fastforce
  obtain rs1 st2 where t: "getCosmWasmClient_in_turn net ctx chs st1 = (rs1, st2)"
    by fastforce
  from Cons.prems(1) r t have rs: "rs = r # rs1" and st2: "st2 = st'"
    by simp_all
  note t = t [unfolded st2]
  show ?case
  proof (cases r)
    case (Inl e)
    with rs Cons.prems have "Inr c1 \<in> set rs1" "Inr c2 \<in> set rs1"
      by auto
    with Cons.IH [OF t] show ?thesis by simp
  next
    case (Inr c)
    with r have "wasmClient st1 = Some c"
      by (simp add: getCosmWasmClient_sets_client)
    from getCosmWasmClient_in_turn_cached [OF this, of net ctx chs] t
    have "rs1 = replicate (length chs) (Inr c)"
      by simp
    with rs Inr Cons.prems show ?thesis
      by auto
  qed
qed

text \<open>
  C9, as the code has it, for calls that do not overlap (each one finished
  before the next starts): once a context holds a client, \<open>getCosmWasmClient\<close>
  returns it for every chain and changes nothing, so no second client is
  created. The client a successful call leaves in the context is the one every
  later call returns, whatever chain it is asked for; on a context with no
  client it is connected to the RPC endpoint of the chain of that call. In any
  list of calls made in turn, all the calls that succeed return the same client.
\<close>

theorem getCosmWasmClient_cached:
  "(wasmClient st = Some c \<longrightarrow> getCosmWasmClient net ctx ch st = (Inr c, st))
   \<and> (getCosmWasmClient net ctx ch st = (Inr c, st') \<longrightarrow>
        wasmClient st' = Some c
        \<and> (\<forall>ch'. getCosmWasmClient net ctx ch' st' = (Inr c, st'))
        \<and> (\<forall>chs. getCosmWasmClient_in_turn net ctx chs st'
                    = (replicate (length chs) (Inr c), st'))
        \<and> (wasmClient st = None \<longrightarrow>
             (\<exists>name rpc. toChainName (whContext ctx) ch = Inr name
                \<and> rpcs (whContext ctx) name = Some rpc
                \<and> c = Client rpc
                \<and> calls st' = calls st @ [Connect rpc])))
   \<and> (getCosmWasmClient_in_turn net ctx chs st = (rs, st') \<longrightarrow>
        Inr c1 \<in> set rs \<longrightarrow> Inr c2 \<in> set rs \<longrightarrow> c1 = c2)"
proof (intro conjI impI allI)
  assume "wasmClient st = Some c"
  then show "getCosmWasmClient net ctx ch st = (Inr c, st)"
    by (rule getCosmWasmClient_Some)
next
  assume "getCosmWasmClient net ctx ch st = (Inr c, st')"
  then show "wasmClient st' = Some c"
    by (rule getCosmWasmClient_sets_client)
next
  fix ch'
  assume "getCosmWasmClient net ctx ch st = (Inr c, st')"
  then have "wasmClient st' = Some c"
    by (rule getCosmWasmClient_sets_client)
  then show "getCosmWasmClient net ctx ch' st' = (Inr c, st')"
    by (rule getCosmWasmClient_Some)
next
  fix chs
  assume "getCosmWasmClient net ctx ch st = (Inr c, st')"
  then have "wasmClient st' = Some c"
    by (rule getCosmWasmClient_sets_client)
  then show "getCosmWasmClient_in_turn net ctx chs st' = (replicate (length chs) (Inr c), st')"
    by (rule getCosmWasmClient_in_turn_cached)
next
  assume r: "getCosmWasmClient net ctx ch st = (Inr c, st')" and n: "wasmClient st = None"
  from getCosmWasmClient_None [OF n r]
  show "\<exists>name rpc. toChainName (whContext ctx) ch = Inr name
          \<and> rpcs (whContext ctx) name = Some rpc
          \<and> c = Client rpc
          \<and> calls st' = calls st @ [Connect rpc]"
    by auto
next
  assume "getCosmWasmClient_in_turn net ctx chs st = (rs, st')"
    "Inr c1 \<in> set rs" "Inr c2 \<in> set rs"
  then show "c1 = c2"
    by (rule getCosmWasmClient_in_turn_one_client)
qed

lemma getCosmWasmClient_first_wormchain:
  "getCosmWasmClient network_up osmosis_context (ChainName ''wormchain'') new_context_state
     = (Inr (Client ''https://rpc.wormchain.example''),
        \<lparr>wasmClient = Some (Client ''https://rpc.wormchain.example''),
         calls = [Connect ''https://rpc.wormchain.example'']\<rparr>)"
  by (simp add: getCosmWasmClient_atomic new_context_state_def andThen_def pure_step_def
        osmosis_context_def example_wormhole_def example_toChainName_def connect_def
        network_up_def record_call_def)

theorem getCosmWasmClient_cached_witness:
  "getCosmWasmClient network_up osmosis_context (ChainName ''wormchain'') new_context_state
     = (Inr (Client ''https://rpc.wormchain.example''),
        \<lparr>wasmClient = Some (Client ''https://rpc.wormchain.example''),
         calls = [Connect ''https://rpc.wormchain.example'']\<rparr>)
   \<and> getCosmWasmClient network_up osmosis_context (ChainName ''osmosis'')
        \<lparr>wasmClient = Some (Client ''https://rpc.wormchain.example''),
         calls = [Connect ''https://rpc.wormchain.example'']\<rparr>
     = (Inr (Client ''https://rpc.wormchain.example''),
        \<lparr>wasmClient = Some (Client ''https://rpc.wormchain.example''),
         calls = [Connect ''https://rpc.wormchain.example'']\<rparr>)
   \<and> getCosmWasmClient_in_turn network_up osmosis_context
        [ChainName ''osmosis'', ChainId 3104]
        \<lparr>wasmClient = Some (Client ''https://rpc.wormchain.example''),
         calls = [Connect ''https://rpc.wormchain.example'']\<rparr>
     = ([Inr (Client ''https://rpc.wormchain.example''), Inr (Client ''https://rpc.wormchain.example'')],
        \<lparr>wasmClient = Some (Client ''https://rpc.wormchain.example''),
         calls = [Connect ''https://rpc.wormchain.example'']\<rparr>)"
  using getCosmWasmClient_cached
          [of new_context_state "Client ''https://rpc.wormchain.example''" network_up
              osmosis_context "ChainName ''wormchain''"
              "\<lparr>wasmClient = Some (Client ''https://rpc.wormchain.example''),
                calls = [Connect ''https://rpc.wormchain.example'']\<rparr>"]
        getCosmWasmClient_first_wormchain
  by (simp add: numeral_2_eq_2)

text \<open>
  C9, as the claim states it, fails for calls that overlap. On a new context a
  call for Wormchain and a call for Osmosis that starts while the first waits
  for its connection both find no client and both connect: two clients are
  created, the first call returns the Wormchain client, and the context is left
  with the Osmosis client of the second call, which is what a later call for
  Wormchain then returns.
\<close>

theorem getCosmWasmClient_overlapping_counterexample:
  "getCosmWasmClient_overlapping network_up osmosis_context (ChainName ''wormchain'')
     (ChainName ''osmosis'') new_context_state
   = ((Inr (Client ''https://rpc.wormchain.example''), Inr (Client ''https://rpc.osmosis.example'')),
      \<lparr>wasmClient = Some (Client ''https://rpc.osmosis.example''),
       calls = [Connect ''https://rpc.wormchain.example'', Connect ''https://rpc.osmosis.example'']\<rparr>)
   \<and> getCosmWasmClient network_up osmosis_context (ChainName ''wormchain'')
       \<lparr>wasmClient = Some (Client ''https://rpc.osmosis.example''),
        calls = [Connect ''https://rpc.wormchain.example'', Connect ''https://rpc.osmosis.example'']\<rparr>
     = (Inr (Client ''https://rpc.osmosis.example''),
        \<lparr>wasmClient = Some (Client ''https://rpc.osmosis.example''),
         calls = [Connect ''https://rpc.wormchain.example'', Connect ''https://rpc.osmosis.example'']\<rparr>)
   \<and> Client ''https://rpc.wormchain.example'' \<noteq> Client ''https://rpc.osmosis.example''"
  by (simp add: getCosmWasmClient_overlapping_def getCosmWasmClient_until_await_def
        getCosmWasmClient_resume_def getCosmWasmClient_after_await_def new_context_state_def
        andThen_def pure_step_def osmosis_context_def example_wormhole_def
        example_toChainName_def connect_def network_up_def record_call_def
        getCosmWasmClient_atomic)

section \<open>isTransferCompleted\<close>

lemma getCosmWasmClient_ignores_contracts:
  "getCosmWasmClient net (ctx\<lparr>mustGetContracts := f\<rparr>) ch st = getCosmWasmClient net ctx ch st"
  unfolding getCosmWasmClient_atomic by (simp cong: option.case_cong)

text \<open>
  C8, as the code has it: the contract \<open>isTransferCompleted\<close> queries is the token
  bridge that \<open>mustGetContracts\<close> gives for the context's own chain, and the
  client it queries through is the one \<open>getCosmWasmClient\<close> returns for
  \<open>destChain\<close>. What \<open>mustGetContracts\<close> gives for any other chain, \<open>destChain\<close>
  among them, is never read: replacing it changes nothing. On a context with no
  client the client is a new one, connected to the RPC endpoint of \<open>destChain\<close>;
  on a context that holds a client it is that client, whatever \<open>destChain\<close> is
  and whatever chain the client was connected for.
\<close>

theorem isTransferCompleted_own_chain_contract:
  "(mustGetContracts ctx (chain ctx) = Inr cs \<and> token_bridge cs = Some tb \<and> tb \<noteq> []
      \<and> getCosmWasmClient net ctx destChain st = (Inr c, st1)
      \<and> arrayify_hex signedVaa = Inr bs
    \<longrightarrow> isTransferCompleted net ctx destChain signedVaa st
          = (is_vaa_redeemed_reply net (calls st1) c tb (Base64 bs),
             record_call (QueryContractSmart c tb (IsVaaRedeemed (Base64 bs))) st1))
   \<and> (f (chain ctx) = mustGetContracts ctx (chain ctx)
    \<longrightarrow> isTransferCompleted net (ctx\<lparr>mustGetContracts := f\<rparr>) destChain signedVaa st
          = isTransferCompleted net ctx destChain signedVaa st)
   \<and> (mustGetContracts ctx (chain ctx) = Inr cs \<and> token_bridge cs = Some tb \<and> tb \<noteq> []
      \<and> wasmClient st = None
      \<and> toChainName (whContext ctx) destChain = Inr name
      \<and> rpcs (whContext ctx) name = Some rpc \<and> rpc \<noteq> []
      \<and> connect_reply net (calls st) rpc = None
      \<and> arrayify_hex signedVaa = Inr bs
    \<longrightarrow> isTransferCompleted net ctx destChain signedVaa st
          = (is_vaa_redeemed_reply net (calls st @ [Connect rpc]) (Client rpc) tb (Base64 bs),
             st\<lparr>wasmClient := Some (Client rpc),
                calls := calls st @ [Connect rpc,
                  QueryContractSmart (Client rpc) tb (IsVaaRedeemed (Base64 bs))]\<rparr>))
   \<and> (mustGetContracts ctx (chain ctx) = Inr cs \<and> token_bridge cs = Some tb \<and> tb \<noteq> []
      \<and> wasmClient st = Some c0
      \<and> arrayify_hex signedVaa = Inr bs
    \<longrightarrow> isTransferCompleted net ctx destChain signedVaa st
          = (is_vaa_redeemed_reply net (calls st) c0 tb (Base64 bs),
             st\<lparr>calls := calls st
                  @ [QueryContractSmart c0 tb (IsVaaRedeemed (Base64 bs))]\<rparr>))"
proof (intro conjI impI)
  assume a: "mustGetContracts ctx (chain ctx) = Inr cs \<and> token_bridge cs = Some tb \<and> tb \<noteq> []
      \<and> getCosmWasmClient net ctx destChain st = (Inr c, st1)
      \<and> arrayify_hex signedVaa = Inr bs"
  then show "isTransferCompleted net ctx destChain signedVaa st
          = (is_vaa_redeemed_reply net (calls st1) c tb (Base64 bs),
             record_call (QueryContractSmart c tb (IsVaaRedeemed (Base64 bs))) st1)"
    by (simp add: isTransferCompleted_def andThen_def pure_step_def queryIsVaaRedeemed_def)
next
  assume "f (chain ctx) = mustGetContracts ctx (chain ctx)"
  moreover have "getCosmWasmClient net (ctx\<lparr>mustGetContracts := f\<rparr>) destChain
                   = getCosmWasmClient net ctx destChain"
    by (rule ext) (rule getCosmWasmClient_ignores_contracts)
  ultimately show "isTransferCompleted net (ctx\<lparr>mustGetContracts := f\<rparr>) destChain signedVaa st
          = isTransferCompleted net ctx destChain signedVaa st"
    by (simp add: isTransferCompleted_def cong: if_cong)
next
  assume a: "mustGetContracts ctx (chain ctx) = Inr cs \<and> token_bridge cs = Some tb \<and> tb \<noteq> []
      \<and> wasmClient st = None
      \<and> toChainName (whContext ctx) destChain = Inr name
      \<and> rpcs (whContext ctx) name = Some rpc \<and> rpc \<noteq> []
      \<and> connect_reply net (calls st) rpc = None
      \<and> arrayify_hex signedVaa = Inr bs"
  then have "getCosmWasmClient net ctx destChain st
               = (Inr (Client rpc), st\<lparr>wasmClient := Some (Client rpc),
                                        calls := calls st @ [Connect rpc]\<rparr>)"
    by (simp add: getCosmWasmClient_atomic andThen_def pure_step_def connect_def
          record_call_def)
  with a show "isTransferCompleted net ctx destChain signedVaa st
          = (is_vaa_redeemed_reply net (calls st @ [Connect rpc]) (Client rpc) tb (Base64 bs),
             st\<lparr>wasmClient := Some (Client rpc),
                calls := calls st @ [Connect rpc,
                  QueryContractSmart (Client rpc) tb (IsVaaRedeemed (Base64 bs))]\<rparr>)"
    by (simp add: isTransferCompleted_def andThen_def pure_step_def queryIsVaaRedeemed_def
          record_call_def)
next
  assume a: "mustGetContracts ctx (chain ctx) = Inr cs \<and> token_bridge cs = Some tb \<and> tb \<noteq> []
      \<and> wasmClient st = Some c0
      \<and> arrayify_hex signedVaa = Inr bs"
  then have "getCosmWasmClient net ctx destChain st = (Inr c0, st)"
    by (simp add: getCosmWasmClient_Some)
  with a show "isTransferCompleted net ctx destChain signedVaa st
          = (is_vaa_redeemed_reply net (calls st) c0 tb (Base64 bs),
             st\<lparr>calls := calls st
                  @ [QueryContractSmart c0 tb (IsVaaRedeemed (Base64 bs))]\<rparr>)"
    by (simp add: isTransferCompleted_def andThen_def pure_step_def queryIsVaaRedeemed_def
          record_call_def)
qed

lemma arrayify_hex_example: "arrayify_hex ''0x0102'' = Inr [1, 2]"
  by (simp add: arrayify_hex_def isHexString_def startsWith_def hex_value_def)

lemma osmosis_own_contract:
  "mustGetContracts osmosis_context (chain osmosis_context)
     = Inr \<lparr>token_bridge = Some ''osmo1tokenbridge''\<rparr>"
  by (simp add: osmosis_context_def example_contracts_def example_toChainName_def)

lemma osmosis_rpcs:
  "toChainName (whContext osmosis_context) (ChainName ''wormchain'') = Inr ''wormchain''"
  "rpcs (whContext osmosis_context) ''wormchain'' = Some ''https://rpc.wormchain.example''"
  "rpcs (whContext osmosis_context) ''osmosis'' = Some ''https://rpc.osmosis.example''"
  "chain osmosis_context = ChainName ''osmosis''"
  by (simp_all add: osmosis_context_def example_wormhole_def example_toChainName_def)

theorem isTransferCompleted_own_chain_contract_witness:
  "mustGetContracts osmosis_context (ChainName ''wormchain'')
     = Inr \<lparr>token_bridge = Some ''wormchain1tokenbridge''\<rparr>
   \<and> isTransferCompleted network_up osmosis_context (ChainName ''wormchain'') ''0x0102''
       new_context_state
     = (Inr False,
        \<lparr>wasmClient = Some (Client ''https://rpc.wormchain.example''),
         calls = [Connect ''https://rpc.wormchain.example'',
                  QueryContractSmart (Client ''https://rpc.wormchain.example'')
                    ''osmo1tokenbridge'' (IsVaaRedeemed (Base64 [1, 2]))]\<rparr>)
   \<and> isTransferCompleted network_up osmosis_context (ChainName ''wormchain'') ''0x0102''
       \<lparr>wasmClient = Some (Client ''https://rpc.osmosis.example''), calls = [Connect ''https://rpc.osmosis.example'']\<rparr>
     = (Inr False,
        \<lparr>wasmClient = Some (Client ''https://rpc.osmosis.example''),
         calls = [Connect ''https://rpc.osmosis.example'',
                  QueryContractSmart (Client ''https://rpc.osmosis.example'')
                    ''osmo1tokenbridge'' (IsVaaRedeemed (Base64 [1, 2]))]\<rparr>)"
proof -
  have w: "mustGetContracts osmosis_context (ChainName ''wormchain'')
             = Inr \<lparr>token_bridge = Some ''wormchain1tokenbridge''\<rparr>"
    by (simp add: osmosis_context_def example_contracts_def example_toChainName_def)
  have n: "wasmClient new_context_state = None" "calls new_context_state = []"
    "connect_reply network_up [] ''https://rpc.wormchain.example'' = None"
    by (simp_all add: new_context_state_def network_up_def)
  note inst = isTransferCompleted_own_chain_contract
         [of osmosis_context "\<lparr>token_bridge = Some ''osmo1tokenbridge''\<rparr>" "''osmo1tokenbridge''"
             network_up "ChainName ''wormchain''" _ _ _ "''0x0102''" "[1, 2]"]
  from inst [of new_context_state _ _ _ "''wormchain''" "''https://rpc.wormchain.example''"]
       osmosis_own_contract osmosis_rpcs n arrayify_hex_example
  have fresh: "isTransferCompleted network_up osmosis_context (ChainName ''wormchain'')
                 ''0x0102'' new_context_state
        = (is_vaa_redeemed_reply network_up [Connect ''https://rpc.wormchain.example'']
             (Client ''https://rpc.wormchain.example'') ''osmo1tokenbridge'' (Base64 [1, 2]),
           new_context_state\<lparr>wasmClient := Some (Client ''https://rpc.wormchain.example''),
             calls := [Connect ''https://rpc.wormchain.example'',
               QueryContractSmart (Client ''https://rpc.wormchain.example'') ''osmo1tokenbridge''
                 (IsVaaRedeemed (Base64 [1, 2]))]\<rparr>)"
    by simp
  from inst [of "\<lparr>wasmClient = Some (Client ''https://rpc.osmosis.example''), calls = [Connect ''https://rpc.osmosis.example'']\<rparr>" _ _ _ _ _
              "Client ''https://rpc.osmosis.example''"]
       osmosis_own_contract arrayify_hex_example
  have cached: "isTransferCompleted network_up osmosis_context (ChainName ''wormchain'')
                  ''0x0102'' \<lparr>wasmClient = Some (Client ''https://rpc.osmosis.example''), calls = [Connect ''https://rpc.osmosis.example'']\<rparr>
        = (is_vaa_redeemed_reply network_up [Connect ''https://rpc.osmosis.example'']
             (Client ''https://rpc.osmosis.example'') ''osmo1tokenbridge'' (Base64 [1, 2]),
           \<lparr>wasmClient = Some (Client ''https://rpc.osmosis.example''),
            calls = [Connect ''https://rpc.osmosis.example'',
               QueryContractSmart (Client ''https://rpc.osmosis.example'') ''osmo1tokenbridge''
                 (IsVaaRedeemed (Base64 [1, 2]))]\<rparr>)"
    by simp
  from w fresh cached show ?thesis
    by (simp add: network_up_def new_context_state_def)
qed

text \<open>
  C8, as the claim states it, fails on a context that holds a client. An
  Osmosis context that holds a client connected to Wormchain, asked about
  \<open>destChain\<close> Osmosis, its own chain, queries the Osmosis token bridge through
  the Wormchain client: the client is not connected for \<open>destChain\<close>, and
  contract and client differ although \<open>destChain\<close> is the context's own chain.
  The same context holding a client connected to Osmosis, asked about
  Wormchain, queries the Osmosis token bridge through the Osmosis client:
  contract and client agree although \<open>destChain\<close> is another chain.
\<close>

theorem isTransferCompleted_cached_client_counterexample:
  "chain osmosis_context = ChainName ''osmosis''
   \<and> rpcs (whContext osmosis_context) ''osmosis'' = Some ''https://rpc.osmosis.example''
   \<and> rpcs (whContext osmosis_context) ''wormchain'' = Some ''https://rpc.wormchain.example''
   \<and> isTransferCompleted network_up osmosis_context (ChainName ''osmosis'') ''0x0102''
       \<lparr>wasmClient = Some (Client ''https://rpc.wormchain.example''), calls = [Connect ''https://rpc.wormchain.example'']\<rparr>
     = (Inr False,
        \<lparr>wasmClient = Some (Client ''https://rpc.wormchain.example''),
         calls = [Connect ''https://rpc.wormchain.example'',
                  QueryContractSmart (Client ''https://rpc.wormchain.example'')
                    ''osmo1tokenbridge'' (IsVaaRedeemed (Base64 [1, 2]))]\<rparr>)
   \<and> isTransferCompleted network_up osmosis_context (ChainName ''wormchain'') ''0x0102''
       \<lparr>wasmClient = Some (Client ''https://rpc.osmosis.example''), calls = [Connect ''https://rpc.osmosis.example'']\<rparr>
     = (Inr False,
        \<lparr>wasmClient = Some (Client ''https://rpc.osmosis.example''),
         calls = [Connect ''https://rpc.osmosis.example'',
                  QueryContractSmart (Client ''https://rpc.osmosis.example'')
                    ''osmo1tokenbridge'' (IsVaaRedeemed (Base64 [1, 2]))]\<rparr>)
   \<and> Client ''https://rpc.wormchain.example'' \<noteq> Client ''https://rpc.osmosis.example''"
  using osmosis_own_contract arrayify_hex_example osmosis_rpcs
  by (simp add: isTransferCompleted_def andThen_def pure_step_def getCosmWasmClient_Some
        queryIsVaaRedeemed_def record_call_def network_up_def)

section \<open>redeem\<close>

lemmas bech32_defs =
  humanAddress_def toWords_def convert_def bech32_encode_def prefixChk_def polymodStep_def
  polymodStep6_def toLowerCase_def encode_checksum_def charAt_ALPHABET_def ALPHABET_def
  canonicalAddress_def bech32_decode_def toUpperCase_def lastIndexOf_def ALPHABET_MAP_def
  fromWords_def

lemmas eval_congs = sum.case_cong_weak option.case_cong_weak prod.case_cong_weak let_weak_cong











lemma parseVaa_example:
  "parseVaa example_library example_vaa
     = Inr \<lparr>emitterChain = 20,
            emitterAddress = [0, 0, 0, 0, 0, 0, 0, 0, 0, 0, 0, 0, 0, 0, 0, 0,
                              0, 0, 0, 0, 0, 0, 0, 0, 0, 0, 0, 0, 0, 0, 0, 7],
            sequence = 42,
            payload = example_payload\<rparr>"
  by (simp add: example_library_def wire_parseVaa_def example_vaa_def example_payload_def
        be_nat_def)





section \<open>getVaa\<close>

lemma getSignedVAAWithRetry_from_step:
  assumes "calls st = before @ map (guardian_request hosts i e q) [0..<a]"
  shows "getSignedVAAWithRetry_from net hosts i e q R a st =
           (case guardian_reply net before hosts i e q a of
              Inr b \<Rightarrow>
                (Inr b, st\<lparr>calls := before @ map (guardian_request hosts i e q) [0..<Suc a]\<rparr>)
            | Inl err \<Rightarrow>
                if R \<le> a
                then (Inl err,
                      st\<lparr>calls := before @ map (guardian_request hosts i e q) [0..<Suc a]\<rparr>)
                else getSignedVAAWithRetry_from net hosts i e q R (Suc a)
                       (st\<lparr>calls := before @ map (guardian_request hosts i e q) [0..<Suc a]\<rparr>))"
proof -
  have rep: "getSignedVAA_reply net (calls st) (host_at hosts a) i e q
               = guardian_reply net before hosts i e q a"
    using assms by (simp add: guardian_reply_def)
  have st1: "record_call (GetSignedVAA (host_at hosts a) i e q) st
               = st\<lparr>calls := before @ map (guardian_request hosts i e q) [0..<Suc a]\<rparr>"
    using assms by (simp add: record_call_def guardian_request_def)
  show ?thesis
    by (subst getSignedVAAWithRetry_from.simps)
       (simp add: getSignedVAA_def rep st1 split: sum.splits)
qed

lemma getSignedVAAWithRetry_from_result:
  assumes "getSignedVAAWithRetry_from net hosts i e q R a st = (r, st')"
    and "calls st = before @ map (guardian_request hosts i e q) [0..<a]"
    and "a \<le> R"
  shows "\<exists>k. a \<le> k \<and> k \<le> R
           \<and> (\<forall>j. a \<le> j \<and> j < k \<longrightarrow> isl (guardian_reply net before hosts i e q j))
           \<and> r = guardian_reply net before hosts i e q k
           \<and> (isl r \<longrightarrow> k = R)
           \<and> st' = st\<lparr>calls := before @ map (guardian_request hosts i e q) [0..<Suc k]\<rparr>"
  using assms
proof (induction "R - a" arbitrary: a st)
  case 0
  then have a: "a = R" by simp
  let ?rep = "guardian_reply net before hosts i e q a"
  note run0 = trans [OF getSignedVAAWithRetry_from_step [OF "0.prems"(2), symmetric]
                       "0.prems"(1)]
  from run0 a have "r = ?rep"
    "st' = st\<lparr>calls := before @ map (guardian_request hosts i e q) [0..<Suc a]\<rparr>"
    by (auto split: sum.splits)
  with a show ?case
    by (intro exI [of _ a]) auto
next
  case (Suc n)
  then have a: "a < R" "n = R - Suc a" by simp_all
  let ?rep = "guardian_reply net before hosts i e q a"
  let ?st1 = "st\<lparr>calls := before @ map (guardian_request hosts i e q) [0..<Suc a]\<rparr>"
  note run0 = trans [OF getSignedVAAWithRetry_from_step [OF Suc.prems(2), symmetric]
                       Suc.prems(1)]
  show ?case
  proof (cases ?rep)
    case (Inr b)
    with run0 have "r = ?rep" "st' = ?st1"
      by auto
    with Inr a show ?thesis
      by (intro exI [of _ a]) auto
  next
    case (Inl err)
    with run0 a(1)
    have run: "getSignedVAAWithRetry_from net hosts i e q R (Suc a) ?st1 = (r, st')"
      by simp
    have c: "calls ?st1 = before @ map (guardian_request hosts i e q) [0..<Suc a]"
      by simp
    from a have le: "Suc a \<le> R" by simp
    from Suc.hyps(1) [OF a(2) run c le] obtain k where k: "Suc a \<le> k" "k \<le> R"
      "\<forall>j. Suc a \<le> j \<and> j < k \<longrightarrow> isl (guardian_reply net before hosts i e q j)"
      "r = guardian_reply net before hosts i e q k" "isl r \<longrightarrow> k = R"
      "st' = ?st1\<lparr>calls := before @ map (guardian_request hosts i e q) [0..<Suc k]\<rparr>"
      by blast
    have "\<forall>j. a \<le> j \<and> j < k \<longrightarrow> isl (guardian_reply net before hosts i e q j)"
    proof (intro allI impI)
      fix j assume j: "a \<le> j \<and> j < k"
      show "isl (guardian_reply net before hosts i e q j)"
      proof (cases "j = a")
        case True
        with Inl show ?thesis by simp
      next
        case False
        with j have "Suc a \<le> j \<and> j < k" by arith
        with k(3) show ?thesis by blast
      qed
    qed
    moreover from k(1) have "a \<le> k"
      by simp
    moreover from k(6)
    have "st' = st\<lparr>calls := before @ map (guardian_request hosts i e q) [0..<Suc k]\<rparr>"
      by simp
    moreover note k(2) k(4) k(5)
    ultimately show ?thesis
      by blast
  qed
qed


lemma getSignedVAAWithRetry_result:
  assumes "getSignedVAAWithRetry net hosts i e q R st = (r, st')"
  shows "\<exists>k\<le>R. (\<forall>j<k. isl (guardian_reply net (calls st) hosts i e q j))
           \<and> r = guardian_reply net (calls st) hosts i e q k
           \<and> (isl r \<longrightarrow> k = R)
           \<and> st' = st\<lparr>calls := calls st @ map (guardian_request hosts i e q) [0..<Suc k]\<rparr>"
proof -
  from assms have "getSignedVAAWithRetry_from net hosts i e q R 0 st = (r, st')"
    by (simp add: getSignedVAAWithRetry_def)
  from getSignedVAAWithRetry_from_result [OF this, of "calls st"]
  show ?thesis by auto
qed

lemma getVaa_found:
  assumes client: "getCosmWasmClient net ctx ch st = (Inr c, st1)"
    and tx: "getTx_reply net (calls st1) c txId = Inr (Some tx)"
    and logs: "parseRawLog lib (rawLog tx) = Inr logs"
    and sq: "searchLogs ''message.sequence'' logs = Some sq" "sq \<noteq> []"
    and em: "searchLogs ''message.sender'' logs = Some emitter" "emitter \<noteq> []"
    and i: "toChainId (whContext ctx) ch = Inr chainId"
  shows "\<exists>k\<le>3.
           (\<forall>j<k. isl (guardian_reply net (calls st1 @ [GetTx c txId])
                          (wormholeHosts (whContext ctx)) chainId emitter sq j))
           \<and> (isl (guardian_reply net (calls st1 @ [GetTx c txId])
                      (wormholeHosts (whContext ctx)) chainId emitter sq k) \<longrightarrow> k = 3)
           \<and> getVaa lib net ctx txId ch st =
               (case guardian_reply net (calls st1 @ [GetTx c txId])
                       (wormholeHosts (whContext ctx)) chainId emitter sq k of
                  Inl e \<Rightarrow> Inl e
                | Inr vaaBytes \<Rightarrow>
                    (case parseVaa lib vaaBytes of
                       Inl e \<Rightarrow> Inl e
                     | Inr parsed \<Rightarrow>
                         Inr \<lparr>transaction = tx, rawVaa = vaaBytes, vaa = parsed\<rparr>),
                st1\<lparr>calls := calls st1 @ GetTx c txId
                         # map (guardian_request (wormholeHosts (whContext ctx)) chainId
                                  emitter sq) [0..<Suc k]\<rparr>)"
proof -
  let ?hosts = "wormholeHosts (whContext ctx)"
  let ?st2 = "record_call (GetTx c txId) st1"
  let ?rest = "\<lambda>vaaBytes. andThen (pure_step (parseVaa lib vaaBytes)) (\<lambda>parsed.
                 succeed \<lparr>transaction = tx, rawVaa = vaaBytes, vaa = parsed\<rparr>)"
  have run: "getVaa lib net ctx txId ch st
               = andThen (getSignedVAAWithRetry net ?hosts chainId emitter sq 3) ?rest ?st2"
    using assms by (simp add: getVaa_def andThen_def pure_step_def getTx_def)
  obtain r3 st3 where g: "getSignedVAAWithRetry net ?hosts chainId emitter sq 3 ?st2 = (r3, st3)"
    by fastforce
  have c2: "calls ?st2 = calls st1 @ [GetTx c txId]"
    by (simp add: record_call_def)
  from getSignedVAAWithRetry_result [OF g] obtain k where k: "k \<le> 3"
    "\<forall>j<k. isl (guardian_reply net (calls st1 @ [GetTx c txId]) ?hosts chainId emitter sq j)"
    "r3 = guardian_reply net (calls st1 @ [GetTx c txId]) ?hosts chainId emitter sq k"
    "isl r3 \<longrightarrow> k = 3"
    "st3 = ?st2\<lparr>calls := calls ?st2 @ map (guardian_request ?hosts chainId emitter sq)
                                          [0..<Suc k]\<rparr>"
    unfolding c2 by blast
  from k(5) have st3: "st3 = st1\<lparr>calls := calls st1 @ GetTx c txId
                         # map (guardian_request ?hosts chainId emitter sq) [0..<Suc k]\<rparr>"
    by (simp add: record_call_def)
  have final: "getVaa lib net ctx txId ch st =
          (case r3 of
             Inl e \<Rightarrow> Inl e
           | Inr vaaBytes \<Rightarrow>
               (case parseVaa lib vaaBytes of
                  Inl e \<Rightarrow> Inl e
                | Inr parsed \<Rightarrow> Inr \<lparr>transaction = tx, rawVaa = vaaBytes, vaa = parsed\<rparr>),
           st3)"
  proof (cases r3)
    case (Inl e)
    with g show ?thesis
      by (simp add: run andThen_def)
  next
    case (Inr b)
    show ?thesis
    proof (cases "parseVaa lib b")
      case e: (Inl e)
      with Inr g show ?thesis
        by (simp add: run andThen_def pure_step_def)
    next
      case p: (Inr parsed)
      with Inr g show ?thesis
        by (simp add: run andThen_def pure_step_def succeed_def)
    qed
  qed
  note final' = final [unfolded k(3) st3]
  note last = k(4) [unfolded k(3)]
  from k(1) k(2) last final' show ?thesis
    by blast
qed

lemma filter_guardian_requests:
  "filter is_guardian_call (map (guardian_request hosts i e q) js)
     = map (guardian_request hosts i e q) js"
  by (induction js) (simp_all add: guardian_request_def)

lemma not_falsy: "\<not> falsy x \<longleftrightarrow> (\<exists>s. x = Some s \<and> s \<noteq> [])"
  by (cases x) simp_all

lemma getCosmWasmClient_no_guardian_call:
  "getCosmWasmClient net ctx ch st = (r, st1) \<Longrightarrow>
   filter is_guardian_call (calls st1) = filter is_guardian_call (calls st)"
  by (auto simp: getCosmWasmClient_atomic andThen_def pure_step_def failWith_def connect_def
        record_call_def Let_def split: option.splits sum.splits if_splits)

lemma getVaa_guardian_bound:
  "length (filter is_guardian_call (calls (snd (getVaa lib net ctx txId ch st))))
     \<le> length (filter is_guardian_call (calls st)) + 4"
proof -
  obtain r st' where run: "getVaa lib net ctx txId ch st = (r, st')"
    by fastforce
  obtain r1 st1 where c: "getCosmWasmClient net ctx ch st = (r1, st1)"
    by fastforce
  note f1 = getCosmWasmClient_no_guardian_call [OF c]
  have "length (filter is_guardian_call (calls st'))
          \<le> length (filter is_guardian_call (calls st)) + 4"
  proof (cases "\<exists>cl tx logs sq emitter chainId. r1 = Inr cl
                  \<and> getTx_reply net (calls st1) cl txId = Inr (Some tx)
                  \<and> parseRawLog lib (rawLog tx) = Inr logs
                  \<and> searchLogs ''message.sequence'' logs = Some sq \<and> sq \<noteq> []
                  \<and> searchLogs ''message.sender'' logs = Some emitter \<and> emitter \<noteq> []
                  \<and> toChainId (whContext ctx) ch = Inr chainId")
    case True
    then obtain cl tx logs sq emitter chainId where p: "r1 = Inr cl"
      "getTx_reply net (calls st1) cl txId = Inr (Some tx)"
      "parseRawLog lib (rawLog tx) = Inr logs"
      "searchLogs ''message.sequence'' logs = Some sq" "sq \<noteq> []"
      "searchLogs ''message.sender'' logs = Some emitter" "emitter \<noteq> []"
      "toChainId (whContext ctx) ch = Inr chainId"
      by blast
    from c p(1) have c': "getCosmWasmClient net ctx ch st = (Inr cl, st1)"
      by simp
    from getVaa_found [OF c' p(2-8)] run obtain k where k: "k \<le> 3"
      "st' = st1\<lparr>calls := calls st1 @ GetTx cl txId
                 # map (guardian_request (wormholeHosts (whContext ctx)) chainId emitter sq)
                     [0..<Suc k]\<rparr>"
      by auto
    from k(2) have "filter is_guardian_call (calls st')
        = filter is_guardian_call (calls st1)
            @ map (guardian_request (wormholeHosts (whContext ctx)) chainId emitter sq)
                [0..<Suc k]"
      by (simp add: filter_guardian_requests del: upt_Suc)
    with f1 k(1) show ?thesis
      by simp
  next
    case False
    with run c have "filter is_guardian_call (calls st') = filter is_guardian_call (calls st1)"
      by (auto simp: getVaa_def andThen_def pure_step_def failWith_def getTx_def
            record_call_def Let_def not_falsy
            split: sum.splits if_splits option.splits)
    with f1 show ?thesis by simp
  qed
  with run show ?thesis by simp
qed


text \<open>
  C3, as the code has it: \<open>getVaa\<close> hands the guardian fetch the \<open>retryAttempts\<close>
  3, which the loop compares with the number of requests made only after a
  request has failed. In every case \<open>getVaa\<close> makes at most 4 guardian requests
  and returns. When the transaction is found and its logs give a sequence and
  an emitter, it makes between 1 and 4 requests, all for that chain id, emitter
  and sequence, going round the hosts: every request but the last has failed,
  and the last has succeeded or is the fourth. When the last request succeeded
  \<open>getVaa\<close> returns its bytes together with what \<open>parseVaa\<close> makes of them (or
  fails as \<open>parseVaa\<close> does); when the fourth failed \<open>getVaa\<close> fails with the
  error of that request.
\<close>

theorem getVaa_guardian_requests:
  "length (filter is_guardian_call (calls (snd (getVaa lib net ctx txId ch st))))
     \<le> length (filter is_guardian_call (calls st)) + 4
   \<and> (getCosmWasmClient net ctx ch st = (Inr c, st1)
      \<and> getTx_reply net (calls st1) c txId = Inr (Some tx)
      \<and> parseRawLog lib (rawLog tx) = Inr logs
      \<and> searchLogs ''message.sequence'' logs = Some sq \<and> sq \<noteq> []
      \<and> searchLogs ''message.sender'' logs = Some emitter \<and> emitter \<noteq> []
      \<and> toChainId (whContext ctx) ch = Inr chainId
    \<longrightarrow> (\<exists>k\<le>3.
           (\<forall>j<k. isl (guardian_reply net (calls st1 @ [GetTx c txId])
                          (wormholeHosts (whContext ctx)) chainId emitter sq j))
           \<and> (isl (guardian_reply net (calls st1 @ [GetTx c txId])
                      (wormholeHosts (whContext ctx)) chainId emitter sq k) \<longrightarrow> k = 3)
           \<and> getVaa lib net ctx txId ch st =
               (case guardian_reply net (calls st1 @ [GetTx c txId])
                       (wormholeHosts (whContext ctx)) chainId emitter sq k of
                  Inl e \<Rightarrow> Inl e
                | Inr vaaBytes \<Rightarrow>
                    (case parseVaa lib vaaBytes of
                       Inl e \<Rightarrow> Inl e
                     | Inr parsed \<Rightarrow>
                         Inr \<lparr>transaction = tx, rawVaa = vaaBytes, vaa = parsed\<rparr>),
                st1\<lparr>calls := calls st1 @ GetTx c txId
                         # map (guardian_request (wormholeHosts (whContext ctx)) chainId
                                  emitter sq) [0..<Suc k]\<rparr>)))"
proof (intro conjI impI)
  show "length (filter is_guardian_call (calls (snd (getVaa lib net ctx txId ch st))))
     \<le> length (filter is_guardian_call (calls st)) + 4"
    by (rule getVaa_guardian_bound)
next
  assume "getCosmWasmClient net ctx ch st = (Inr c, st1)
      \<and> getTx_reply net (calls st1) c txId = Inr (Some tx)
      \<and> parseRawLog lib (rawLog tx) = Inr logs
      \<and> searchLogs ''message.sequence'' logs = Some sq \<and> sq \<noteq> []
      \<and> searchLogs ''message.sender'' logs = Some emitter \<and> emitter \<noteq> []
      \<and> toChainId (whContext ctx) ch = Inr chainId"
  then have p: "getCosmWasmClient net ctx ch st = (Inr c, st1)"
      "getTx_reply net (calls st1) c txId = Inr (Some tx)"
      "parseRawLog lib (rawLog tx) = Inr logs"
      "searchLogs ''message.sequence'' logs = Some sq" "sq \<noteq> []"
      "searchLogs ''message.sender'' logs = Some emitter" "emitter \<noteq> []"
      "toChainId (whContext ctx) ch = Inr chainId"
    by simp_all
  show "\<exists>k\<le>3.
           (\<forall>j<k. isl (guardian_reply net (calls st1 @ [GetTx c txId])
                          (wormholeHosts (whContext ctx)) chainId emitter sq j))
           \<and> (isl (guardian_reply net (calls st1 @ [GetTx c txId])
                      (wormholeHosts (whContext ctx)) chainId emitter sq k) \<longrightarrow> k = 3)
           \<and> getVaa lib net ctx txId ch st =
               (case guardian_reply net (calls st1 @ [GetTx c txId])
                       (wormholeHosts (whContext ctx)) chainId emitter sq k of
                  Inl e \<Rightarrow> Inl e
                | Inr vaaBytes \<Rightarrow>
                    (case parseVaa lib vaaBytes of
                       Inl e \<Rightarrow> Inl e
                     | Inr parsed \<Rightarrow>
                         Inr \<lparr>transaction = tx, rawVaa = vaaBytes, vaa = parsed\<rparr>),
                st1\<lparr>calls := calls st1 @ GetTx c txId
                         # map (guardian_request (wormholeHosts (whContext ctx)) chainId
                                  emitter sq) [0..<Suc k]\<rparr>)"
    by (rule getVaa_found [OF p])
qed

lemmas getVaa_eval =
  getVaa_def andThen_def pure_step_def getCosmWasmClient_atomic failWith_def connect_def
  getTx_def record_call_def getSignedVAA_def getSignedVAAWithRetry_def
  getSignedVAAWithRetry_from.simps host_at_def new_context_state_def osmosis_context_def
  example_wormhole_def example_toChainName_def example_toChainId_def example_logs_def
  succeed_def

lemma getVaa_example_unavailable:
  "getVaa example_library network_up osmosis_context ''tx'' (ChainName ''osmosis'')
     new_context_state
   = (Inl (NetworkError ''not found''),
      \<lparr>wasmClient = Some (Client ''https://rpc.osmosis.example''),
       calls = [Connect ''https://rpc.osmosis.example'',
                GetTx (Client ''https://rpc.osmosis.example'') ''tx'',
                GetSignedVAA (Some ''https://guardian.example'') 20 ''osmo1tokenbridge'' ''42'',
                GetSignedVAA (Some ''https://guardian.example'') 20 ''osmo1tokenbridge'' ''42'',
                GetSignedVAA (Some ''https://guardian.example'') 20 ''osmo1tokenbridge'' ''42'',
                GetSignedVAA (Some ''https://guardian.example'') 20 ''osmo1tokenbridge'' ''42'']\<rparr>)"
  by (simp add: getVaa_eval network_up_def example_library_def)

lemma getVaa_example_third_attempt:
  "getVaa example_library network_third_attempt osmosis_context ''tx'' (ChainName ''osmosis'')
     new_context_state
   = (Inr \<lparr>transaction = \<lparr>rawLog = ''raw log''\<rparr>,
            rawVaa = example_vaa,
            vaa = \<lparr>emitterChain = 20,
                   emitterAddress = [0, 0, 0, 0, 0, 0, 0, 0, 0, 0, 0, 0, 0, 0, 0, 0,
                                     0, 0, 0, 0, 0, 0, 0, 0, 0, 0, 0, 0, 0, 0, 0, 7],
                   sequence = 42,
                   payload = example_payload\<rparr>\<rparr>,
      \<lparr>wasmClient = Some (Client ''https://rpc.osmosis.example''),
       calls = [Connect ''https://rpc.osmosis.example'',
                GetTx (Client ''https://rpc.osmosis.example'') ''tx'',
                GetSignedVAA (Some ''https://guardian.example'') 20 ''osmo1tokenbridge'' ''42'',
                GetSignedVAA (Some ''https://guardian.example'') 20 ''osmo1tokenbridge'' ''42'',
                GetSignedVAA (Some ''https://guardian.example'') 20 ''osmo1tokenbridge'' ''42'']\<rparr>)"
proof -
  have p: "parseVaa example_library = wire_parseVaa"
    by (simp add: example_library_def)
  have l: "parseRawLog example_library ''raw log'' = Inr example_logs"
    by (simp add: example_library_def)
  show ?thesis
    using parseVaa_example
    by (simp add: getVaa_eval network_third_attempt_def network_up_def p l)
qed

lemma getVaa_example_found:
  "getCosmWasmClient network_third_attempt osmosis_context (ChainName ''osmosis'')
     new_context_state
   = (Inr (Client ''https://rpc.osmosis.example''),
      \<lparr>wasmClient = Some (Client ''https://rpc.osmosis.example''),
       calls = [Connect ''https://rpc.osmosis.example'']\<rparr>)"
  "getTx_reply network_third_attempt [Connect ''https://rpc.osmosis.example'']
     (Client ''https://rpc.osmosis.example'') ''tx'' = Inr (Some \<lparr>rawLog = ''raw log''\<rparr>)"
  "parseRawLog example_library ''raw log'' = Inr example_logs"
  "searchLogs ''message.sequence'' example_logs = Some ''42''"
  "searchLogs ''message.sender'' example_logs = Some ''osmo1tokenbridge''"
  "toChainId (whContext osmosis_context) (ChainName ''osmosis'') = Inr 20"
  by (simp_all add: getCosmWasmClient_atomic andThen_def pure_step_def connect_def
        record_call_def new_context_state_def osmosis_context_def example_wormhole_def
        example_toChainName_def example_toChainId_def example_logs_def
        network_third_attempt_def network_up_def example_library_def)

theorem getVaa_guardian_requests_witness:
  "getTx_reply network_third_attempt [Connect ''https://rpc.osmosis.example'']
     (Client ''https://rpc.osmosis.example'') ''tx'' = Inr (Some \<lparr>rawLog = ''raw log''\<rparr>)
   \<and> searchLogs ''message.sequence'' example_logs = Some ''42''
   \<and> searchLogs ''message.sender'' example_logs = Some ''osmo1tokenbridge''
   \<and> getVaa example_library network_third_attempt osmosis_context ''tx''
        (ChainName ''osmosis'') new_context_state
      = (Inr \<lparr>transaction = \<lparr>rawLog = ''raw log''\<rparr>,
               rawVaa = example_vaa,
               vaa = \<lparr>emitterChain = 20,
                      emitterAddress = [0, 0, 0, 0, 0, 0, 0, 0, 0, 0, 0, 0, 0, 0, 0, 0,
                                     0, 0, 0, 0, 0, 0, 0, 0, 0, 0, 0, 0, 0, 0, 0, 7],
                      sequence = 42,
                      payload = example_payload\<rparr>\<rparr>,
         \<lparr>wasmClient = Some (Client ''https://rpc.osmosis.example''),
          calls = [Connect ''https://rpc.osmosis.example'',
                   GetTx (Client ''https://rpc.osmosis.example'') ''tx'',
                   GetSignedVAA (Some ''https://guardian.example'') 20 ''osmo1tokenbridge'' ''42'',
                   GetSignedVAA (Some ''https://guardian.example'') 20 ''osmo1tokenbridge'' ''42'',
                   GetSignedVAA (Some ''https://guardian.example'') 20 ''osmo1tokenbridge'' ''42'']\<rparr>)
   \<and> length (filter is_guardian_call
        (calls (snd (getVaa example_library network_third_attempt osmosis_context ''tx''
                       (ChainName ''osmosis'') new_context_state)))) \<le> 4
   \<and> (\<exists>k\<le>3. getVaa example_library network_third_attempt osmosis_context ''tx''
                 (ChainName ''osmosis'') new_context_state
               = (case guardian_reply network_third_attempt
                         [Connect ''https://rpc.osmosis.example'',
                          GetTx (Client ''https://rpc.osmosis.example'') ''tx'']
                         [''https://guardian.example''] 20 ''osmo1tokenbridge'' ''42'' k of
                    Inl e \<Rightarrow> Inl e
                  | Inr vaaBytes \<Rightarrow>
                      (case parseVaa example_library vaaBytes of
                         Inl e \<Rightarrow> Inl e
                       | Inr parsed \<Rightarrow>
                           Inr \<lparr>transaction = \<lparr>rawLog = ''raw log''\<rparr>, rawVaa = vaaBytes,
                                 vaa = parsed\<rparr>),
                  \<lparr>wasmClient = Some (Client ''https://rpc.osmosis.example''),
                   calls = [Connect ''https://rpc.osmosis.example'',
                            GetTx (Client ''https://rpc.osmosis.example'') ''tx'']
                     @ map (guardian_request [''https://guardian.example''] 20
                              ''osmo1tokenbridge'' ''42'') [0..<Suc k]\<rparr>))"
proof -
  note inst = getVaa_guardian_requests
    [of example_library network_third_attempt osmosis_context "''tx''" "ChainName ''osmosis''"
        new_context_state "Client ''https://rpc.osmosis.example''"
        "\<lparr>wasmClient = Some (Client ''https://rpc.osmosis.example''),
          calls = [Connect ''https://rpc.osmosis.example'']\<rparr>"
        "\<lparr>rawLog = ''raw log''\<rparr>" example_logs "''42''" "''osmo1tokenbridge''" 20]
  have hosts: "wormholeHosts (whContext osmosis_context) = [''https://guardian.example'']"
    by (simp add: osmosis_context_def example_wormhole_def)
  have empty: "calls new_context_state = []"
    by (simp add: new_context_state_def)
  from inst [THEN conjunct1] empty
  have bound: "length (filter is_guardian_call
        (calls (snd (getVaa example_library network_third_attempt osmosis_context ''tx''
                       (ChainName ''osmosis'') new_context_state)))) \<le> 4"
    by simp
  from inst [THEN conjunct2] getVaa_example_found
  have "\<exists>k\<le>3. getVaa example_library network_third_attempt osmosis_context ''tx''
                 (ChainName ''osmosis'') new_context_state
               = (case guardian_reply network_third_attempt
                         [Connect ''https://rpc.osmosis.example'',
                          GetTx (Client ''https://rpc.osmosis.example'') ''tx'']
                         [''https://guardian.example''] 20 ''osmo1tokenbridge'' ''42'' k of
                    Inl e \<Rightarrow> Inl e
                  | Inr vaaBytes \<Rightarrow>
                      (case parseVaa example_library vaaBytes of
                         Inl e \<Rightarrow> Inl e
                       | Inr parsed \<Rightarrow>
                           Inr \<lparr>transaction = \<lparr>rawLog = ''raw log''\<rparr>, rawVaa = vaaBytes,
                                 vaa = parsed\<rparr>),
                  \<lparr>wasmClient = Some (Client ''https://rpc.osmosis.example''),
                   calls = [Connect ''https://rpc.osmosis.example'',
                            GetTx (Client ''https://rpc.osmosis.example'') ''tx'']
                     @ map (guardian_request [''https://guardian.example''] 20
                              ''osmo1tokenbridge'' ''42'') [0..<Suc k]\<rparr>)"
    unfolding hosts by (auto simp del: upt_Suc)
  with bound getVaa_example_found(2,4,5) getVaa_example_third_attempt show ?thesis
    by (simp del: upt_Suc)
qed

text \<open>
  C3, as the claim states it, fails: when no guardian answers, \<open>getVaa\<close> makes 4
  requests, not 3, and fails with the error of the fourth request, which is of
  no kind \<open>AttestationUnavailable\<close>.
\<close>

theorem getVaa_four_requests_counterexample:
  "getVaa example_library network_up osmosis_context ''tx'' (ChainName ''osmosis'')
     new_context_state
   = (Inl (NetworkError ''not found''),
      \<lparr>wasmClient = Some (Client ''https://rpc.osmosis.example''),
       calls = [Connect ''https://rpc.osmosis.example'',
                GetTx (Client ''https://rpc.osmosis.example'') ''tx'',
                GetSignedVAA (Some ''https://guardian.example'') 20 ''osmo1tokenbridge'' ''42'',
                GetSignedVAA (Some ''https://guardian.example'') 20 ''osmo1tokenbridge'' ''42'',
                GetSignedVAA (Some ''https://guardian.example'') 20 ''osmo1tokenbridge'' ''42'',
                GetSignedVAA (Some ''https://guardian.example'') 20 ''osmo1tokenbridge'' ''42'']\<rparr>)
   \<and> length (filter is_guardian_call
        (calls (snd (getVaa example_library network_up osmosis_context ''tx''
                       (ChainName ''osmosis'') new_context_state)))) = 4
   \<and> kind_of (NetworkError ''not found'') \<noteq> AttestationUnavailableError"
  by (simp add: getVaa_example_unavailable)

section \<open>formatAssetAddress and buildTokenId\<close>

text \<open>
  The asset id is 32 bytes: the discriminator byte and then the last 31 bytes of
  the digest of the address string.
\<close>

lemma hex_value_hex_digit: "n < 16 \<Longrightarrow> hex_value (hex_digit n) = Some n"
proof -
  assume "n < 16"
  then have "n \<in> {0, 1, 2, 3, 4, 5, 6, 7, 8, 9, 10, 11, 12, 13, 14, 15}"
    by simp arith
  then show ?thesis
    by (auto simp: hex_digit_def hex_value_def)
qed

lemma buffer_from_hex_byte:
  "buffer_from_hex (hex_of_byte b @ rest) = b # buffer_from_hex rest"
proof -
  have "unat b < 256"
    using unsigned_less [of b] by simp
  then have "unat b div 16 < 16"
    by arith
  moreover have "unat b mod 16 < 16"
    by simp
  moreover have "(of_nat (16 * (unat b div 16) + unat b mod 16) :: 8 word) = b"
    by simp
  ultimately show ?thesis
    by (simp add: hex_of_byte_def hex_value_hex_digit)
qed

lemma buffer_from_hex_hexlify:
  "buffer_from_hex (concat (map hex_of_byte bs)) = bs"
  by (induction bs) (simp_all add: buffer_from_hex_byte)

lemma digest_bytes_length: "length (digest_bytes d) = 32"
  by (simp add: digest_bytes_def)

lemma keccak256_drop4:
  "drop 4 (keccak256 lib data) = concat (map hex_of_byte (tl (digest_bytes (keccak lib data))))"
proof -
  obtain b bs where "digest_bytes (keccak lib data) = b # bs"
    using digest_bytes_length [of "keccak lib data"] by (cases "digest_bytes (keccak lib data)") auto
  then show ?thesis
    by (simp add: keccak256_def hex_of_byte_def)
qed

lemma formatAssetAddress_layout:
  "formatAssetAddress lib address
     = (if isNative address then 1 else 0)
         # tl (digest_bytes (keccak lib (buffer_from_utf8 address)))"
proof -
  have "''01'' = hex_of_byte 1" "''00'' = hex_of_byte 0"
    by (simp_all add: hex_of_byte_def hex_digit_def)
  then show ?thesis
    by (simp add: formatAssetAddress_def buildTokenId_def keccak256_drop4 buffer_from_hex_byte
          buffer_from_hex_hexlify del: buffer_from_hex.simps)
qed

lemma formatAssetAddress_length: "length (formatAssetAddress lib address) = 32"
  by (simp add: formatAssetAddress_layout digest_bytes_length)

lemma formatAssetAddress_eq_iff:
  "formatAssetAddress lib a = formatAssetAddress lib b \<longleftrightarrow>
     isNative a = isNative b
     \<and> tl (digest_bytes (keccak lib (buffer_from_utf8 a)))
         = tl (digest_bytes (keccak lib (buffer_from_utf8 b)))"
  by (auto simp: formatAssetAddress_layout)

text \<open>
  C4 at the native unit of Osmosis: \<open>NATIVE_DENOMS\<close> has the chain names as keys
  and the native units as values, and \<open>buildTokenId\<close> looks the address up as a
  key. The native unit \<open>uosmo\<close> is no key, so its id starts with the
  discriminator \<open>00\<close> of a contract-backed asset; the chain name \<open>osmosis\<close> is
  one, and gets \<open>01\<close>.
\<close>

theorem buildTokenId_native_unit:
  "NATIVE_DENOMS ''osmosis'' = Some ''uosmo''
   \<and> isNative ''uosmo'' = False
   \<and> take 2 (buildTokenId lib ''uosmo'') = ''00''
   \<and> hd (formatAssetAddress lib ''uosmo'') = 0
   \<and> isNative ''osmosis'' = True
   \<and> take 2 (buildTokenId lib ''osmosis'') = ''01''"
  by (simp add: formatAssetAddress_layout buildTokenId_def isNative_def NATIVE_DENOMS_def
        OBJECT_PROTOTYPE_KEYS_def)

theorem buildTokenId_native_unit_witness:
  "take 2 (buildTokenId example_library ''uosmo'') = ''00''
   \<and> hd (formatAssetAddress example_library ''uosmo'') = 0
   \<and> take 2 (buildTokenId example_library ''osmosis'') = ''01''"
  using buildTokenId_native_unit [of example_library] by simp

section \<open>formatAddress and parseAddress\<close>

lemma replicate_12: "replicate 12 x = [x, x, x, x, x, x, x, x, x, x, x, x]"
  by (simp add: eval_nat_numeral)

lemma formatAddress_example:
  "formatAddress example_address = Inr example_recipient"
  by (simp add: formatAddress_def example_address_def example_recipient_def zeroPad_def
        arrayify_def replicate_12 bech32_defs cong: eval_congs)

lemma parseAddress_example_bytes:
  "parseAddress osmosis_context (AddrBytes example_recipient)
     = Inr ''osmo1qqqqqqqqqqqqqqqqqqqqzqsrqszsvpcgpy9qkrqdpc83qygjzv2qtq9zxt''"
  by (simp add: parseAddress_def osmosis_context_def PREFIXES_def example_recipient_def
        bech32_defs cong: eval_congs)

lemma parseAddress_example_hex:
  "parseAddress osmosis_context (AddrString example_recipient_hex)
     = Inr ''osmo1zqsrqszsvpcgpy9qkrqdpc83qygjzvg0tjq7c''"
  by (simp add: parseAddress_def osmosis_context_def PREFIXES_def example_recipient_hex_def
        startsWith_def hexStripZeros_def isHexString_def hex_value_def bech32_defs
        cong: eval_congs)

text \<open>
  A 32-byte address, as contracts have, needs no padding and comes back as it
  was.
\<close>

lemma parseAddress_formatAddress_contract:
  "formatAddress example_contract_address = Inr example_contract_bytes
   \<and> parseAddress osmosis_context (AddrBytes example_contract_bytes)
       = Inr example_contract_address"
  by (simp add: formatAddress_def parseAddress_def osmosis_context_def PREFIXES_def
        example_contract_address_def example_contract_bytes_def zeroPad_def arrayify_def
        bech32_defs cong: eval_congs)

text \<open>
  C1 at a 20-byte account address: \<open>formatAddress\<close> pads the 20 bytes to 32, and
  \<open>parseAddress\<close> of those 32 bytes encodes all 32, padding included, so the
  address that comes back is another one. The same universal address given as
  a hex string loses its leading zero digits, an odd number of them here, and
  comes back as a third address.
\<close>

theorem parseAddress_formatAddress_account:
  "formatAddress example_address = Inr example_recipient
   \<and> parseAddress osmosis_context (AddrBytes example_recipient)
       = Inr ''osmo1qqqqqqqqqqqqqqqqqqqqzqsrqszsvpcgpy9qkrqdpc83qygjzv2qtq9zxt''
   \<and> parseAddress osmosis_context (AddrBytes example_recipient) \<noteq> Inr example_address
   \<and> parseAddress osmosis_context (AddrString example_recipient_hex)
       = Inr ''osmo1zqsrqszsvpcgpy9qkrqdpc83qygjzvg0tjq7c''
   \<and> parseAddress osmosis_context (AddrString example_recipient_hex) \<noteq> Inr example_address"
  using formatAddress_example parseAddress_example_bytes parseAddress_example_hex
  by (simp add: example_address_def)

end
